theory Spec2Isabelle
  imports Complex_Main
begin

section \<open>Python values and built-ins used by the post-processor\<close>

text \<open>
  The Heidenhain post-processor (\<open>heidenhain_post.py\<close>) is a Python script.  Its numbers
  are Python floats (binary64).  A float is modelled by its exact value, a rational number,
  or is the negative zero \<open>-0.0\<close>, which equals \<open>0.0\<close> and differs from it in how it prints.
  An operation on floats gives the exact result rounded to the nearest float, ties to the
  even significand.  Not represented: NaN and the infinities, that is, the results of an
  operation that overflows.  The ints the script mixes with floats (\<open>0\<close>, \<open>2\<close>, \<open>60\<close>) are
  the floats of the same value.  Strings are byte strings: the built-ins below treat ASCII
  the way Python does and leave other bytes alone.
\<close>

datatype error = NameError | KeyError | TypeError

datatype pyfloat = Fin rat | NegZero

definition fval :: "pyfloat \<Rightarrow> rat" where
  "fval x = (case x of Fin r \<Rightarrow> r | NegZero \<Rightarrow> 0)"

text \<open>The sign bit: set for the numbers below zero and for \<open>-0.0\<close>.\<close>

definition negative :: "pyfloat \<Rightarrow> bool" where
  "negative x = (case x of Fin r \<Rightarrow> r < 0 | NegZero \<Rightarrow> True)"

text \<open>A value stored in a parameter dictionary: a float, or a string (\<open>"R"\<close> and \<open>"D"\<close>).\<close>

datatype pyval = Num pyfloat | Str string

text \<open>
  \<open>a == b\<close> on such values: floats compare by value (\<open>-0.0 == 0.0\<close>), strings by content,
  and a float never equals a string.  \<open>a != b\<close> is the negation.
\<close>

definition py_eq :: "pyval \<Rightarrow> pyval \<Rightarrow> bool" where
  "py_eq a b =
     (case (a, b) of
        (Num x, Num y) \<Rightarrow> fval x = fval y
      | (Str s, Str t) \<Rightarrow> s = t
      | _ \<Rightarrow> False)"

type_synonym params = "string \<rightharpoonup> pyval"

text \<open>\<open>d[k]\<close> on a dictionary: a missing key raises KeyError.\<close>

definition getitem :: "params \<Rightarrow> string \<Rightarrow> error + pyval" where
  "getitem d k = (case d k of None \<Rightarrow> Inl KeyError | Some v \<Rightarrow> Inr v)"

definition digit_char :: "nat \<Rightarrow> char" where
  "digit_char n = ''0123456789'' ! (n mod 10)"

text \<open>The decimal digits of a natural number, without leading zeros.\<close>

fun nat_digits :: "nat \<Rightarrow> string" where
  "nat_digits n = (if n < 10 then [digit_char n] else nat_digits (n div 10) @ [digit_char n])"

declare nat_digits.simps [simp del]

text \<open>The last \<open>p\<close> decimal digits of a natural number, padded with zeros on the left.\<close>

fun fixed_digits :: "nat \<Rightarrow> nat \<Rightarrow> string" where
  "fixed_digits 0 n = []"
| "fixed_digits (Suc p) n = fixed_digits p (n div 10) @ [digit_char n]"

text \<open>\<open>str(n)\<close> for a Python int.\<close>

definition str_int :: "int \<Rightarrow> string" where
  "str_int i = (if i < 0 then CHR ''-'' # nat_digits (nat (- i)) else nat_digits (nat i))"

text \<open>
  Rounding to the nearest integer, ties to the even one: what \<open>format(x, ".pf")\<close> does
  with the exact value of the float.
\<close>

definition round_half_even :: "rat \<Rightarrow> int" where
  "round_half_even y =
     (let f = \<lfloor>y\<rfloor>; d = y - of_int f
      in if d < 1 / 2 then f else if 1 / 2 < d then f + 1 else if even f then f else f + 1)"

text \<open>
  Rounding to the nearest binary64 float.  The last place of a float of magnitude \<open>y\<close> has
  the exponent \<open>\<lfloor>log\<^sub>2 y\<rfloor> - 52\<close>, and \<open>-1074\<close> for the subnormal ones: \<open>halvings\<close> and
  \<open>doublings\<close> count the steps from \<open>y\<close> into \<open>[1, 2)\<close>, up to the largest and the smallest
  exponent of a float.
\<close>

fun halvings :: "nat \<Rightarrow> rat \<Rightarrow> nat" where
  "halvings 0 y = 0"
| "halvings (Suc n) y = (if y < 2 then 0 else Suc (halvings n (y / 2)))"

fun doublings :: "nat \<Rightarrow> rat \<Rightarrow> nat" where
  "doublings 0 y = 0"
| "doublings (Suc n) y = (if 1 \<le> y then 0 else Suc (doublings n (y * 2)))"

definition ulp_exponent :: "rat \<Rightarrow> int" where
  "ulp_exponent y =
     (if 1 \<le> y then int (halvings 1023 y) else - int (doublings 1022 y)) - 52"

definition scale2 :: "int \<Rightarrow> rat \<Rightarrow> rat" where
  "scale2 e y = (if 0 \<le> e then y * 2 ^ nat e else y / 2 ^ nat (- e))"

definition round_double :: "rat \<Rightarrow> rat" where
  "round_double x =
     (let e = ulp_exponent \<bar>x\<bar>;
          m = round_half_even (scale2 (- e) \<bar>x\<bar>)
      in sgn x * scale2 e (of_int m))"

text \<open>
  \<open>-x\<close>, \<open>x + y\<close>, \<open>x - y\<close> and \<open>x * y\<close> on floats.  A sum that is zero is \<open>-0.0\<close> only when
  both terms are; a product that is zero has the sign of its factors.
\<close>

definition float_neg :: "pyfloat \<Rightarrow> pyfloat" where
  "float_neg x = (case x of NegZero \<Rightarrow> Fin 0 | Fin r \<Rightarrow> if r = 0 then NegZero else Fin (- r))"

definition float_add :: "pyfloat \<Rightarrow> pyfloat \<Rightarrow> pyfloat" where
  "float_add a b =
     (if a = NegZero \<and> b = NegZero then NegZero else Fin (round_double (fval a + fval b)))"

definition float_sub :: "pyfloat \<Rightarrow> pyfloat \<Rightarrow> pyfloat" where
  "float_sub a b = float_add a (float_neg b)"

definition float_mul :: "pyfloat \<Rightarrow> pyfloat \<Rightarrow> pyfloat" where
  "float_mul a b =
     (let v = round_double (fval a * fval b)
      in if v = 0 \<and> negative a \<noteq> negative b then NegZero else Fin v)"

text \<open>\<open>a / b\<close> on two ints, \<open>b\<close> positive: the quotient rounded to the nearest float.\<close>

definition true_div :: "int \<Rightarrow> int \<Rightarrow> pyfloat" where
  "true_div a b = Fin (round_double (of_int a / of_int b))"

text \<open>The integer \<open>round(|x| * 10^p)\<close> whose digits the fixed-point rendering prints.\<close>

definition scaled :: "nat \<Rightarrow> pyfloat \<Rightarrow> nat" where
  "scaled p x = nat (round_half_even (\<bar>fval x\<bar> * 10 ^ p))"

text \<open>The sign is that of the float, also when it is \<open>-0.0\<close> or rounds to zero.\<close>

definition sign_str :: "bool \<Rightarrow> pyfloat \<Rightarrow> string" where
  "sign_str force x = (if negative x then ''-'' else if force then ''+'' else '''')"

definition int_part :: "nat \<Rightarrow> pyfloat \<Rightarrow> string" where
  "int_part p x = nat_digits (scaled p x div 10 ^ p)"

definition frac_part :: "nat \<Rightarrow> pyfloat \<Rightarrow> string" where
  "frac_part p x = fixed_digits p (scaled p x mod 10 ^ p)"

text \<open>
  \<open>format(x, "+.pf")\<close> when \<open>force\<close> is set and \<open>format(x, ".pf")\<close> otherwise: sign, integer
  digits and, when \<open>p > 0\<close>, a point and \<open>p\<close> decimals.
\<close>

definition format_f :: "bool \<Rightarrow> nat \<Rightarrow> pyfloat \<Rightarrow> string" where
  "format_f force p x =
     sign_str force x @ int_part p x @ (if p = 0 then [] else CHR ''.'' # frac_part p x)"

text \<open>\<open>s.rstrip(c)\<close> for a one-character argument.\<close>

definition rstrip :: "char \<Rightarrow> string \<Rightarrow> string" where
  "rstrip c s = rev (dropWhile (\<lambda>x. x = c) (rev s))"

text \<open>\<open>s.replace(".", ",")\<close>.\<close>

definition replace_point :: "string \<Rightarrow> string" where
  "replace_point s = map (\<lambda>c. if c = CHR ''.'' then CHR '','' else c) s"

text \<open>\<open>s.upper()\<close> on ASCII letters.\<close>

definition upper_char :: "char \<Rightarrow> char" where
  "upper_char c =
     (case map_of (zip ''abcdefghijklmnopqrstuvwxyz'' ''ABCDEFGHIJKLMNOPQRSTUVWXYZ'') c of
        Some u \<Rightarrow> u
      | None \<Rightarrow> c)"

definition upper :: "string \<Rightarrow> string" where
  "upper s = map upper_char s"

text \<open>\<open>s.startswith(p)\<close>.\<close>

fun startswith :: "string \<Rightarrow> string \<Rightarrow> bool" where
  "startswith s [] = True"
| "startswith [] (p # ps) = False"
| "startswith (c # s) (p # ps) = (c = p \<and> startswith s ps)"

text \<open>
  \<open>s.splitlines(False)\<close>: the line boundaries are \<open>\n\<close>, \<open>\r\<close>, \<open>\r\n\<close>, \<open>\v\<close>, \<open>\f\<close> and the
  separators \<open>\x1c\<close>, \<open>\x1d\<close>, \<open>\x1e\<close>; a boundary at the very end opens no empty line.
\<close>

definition is_linebreak :: "char \<Rightarrow> bool" where
  "is_linebreak c =
     (c \<in> set [CHR 0x0A, CHR 0x0B, CHR 0x0C, CHR 0x0D, CHR 0x1C, CHR 0x1D, CHR 0x1E])"

fun splitlines_acc :: "string \<Rightarrow> string \<Rightarrow> string list" where
  "splitlines_acc acc [] = (if acc = [] then [] else [rev acc])"
| "splitlines_acc acc (c # s) =
     (if is_linebreak c then
        rev acc #
        (case s of
           d # s' \<Rightarrow>
             if c = CHR 0x0D \<and> d = CHR 0x0A then splitlines_acc [] s' else splitlines_acc [] s
         | [] \<Rightarrow> [])
      else splitlines_acc (c # acc) s)"

definition splitlines :: "string \<Rightarrow> string list" where
  "splitlines s = splitlines_acc [] s"

section \<open>The data of the post-processor\<close>

text \<open>
  \<open>values\<close> is the dictionary of settings and running state that every routine receives.
  It is a record with one field per key the routines read, named as the key; the keys the
  routines assign (\<open>line_number\<close>, \<open>spindle_state\<close>, \<open>spindle_dir\<close>, \<open>coolant_mode\<close>,
  \<open>MOTION_MODE\<close>) are updated in the record that is returned.
\<close>

record Values =
  POSTPROCESSOR_FILE_NAME :: string
  MACHINE_NAME :: string
  OUTPUT_HEADER :: bool
  OUTPUT_COMMENTS :: bool
  OUTPUT_BCNC :: bool
  OUTPUT_LINE_NUMBERS :: bool
  OUTPUT_BLANK_LINES :: bool
  OUTPUT_PATH_LABELS :: bool
  OUTPUT_MACHINE_NAME :: bool
  OUTPUT_TOOL_CHANGE :: bool
  LIST_TOOLS_IN_PREAMBLE :: bool
  SHOW_OPERATION_LABELS :: bool
  SHOW_MACHINE_UNITS :: bool
  STOP_SPINDLE_FOR_TOOL_CHANGE :: bool
  PARAMETER_ORDER :: "string list"
  line_number :: int
  LINE_INCREMENT :: int
  PGM_UPPERCASE :: bool
  SUPPORT_CYLINDER_STOCK :: bool
  DECIMAL_COMMAS :: bool
  NORMALIZE_PARAMETERS :: bool
  LINE_PREFIX :: string
  LINE_POSTFIX :: string
  LINE_NUMBER_ON_COMMENTS :: bool
  COMMENT_PREFIX :: string
  COMMENT_POSTFIX :: string
  ENABLE_COOLANT :: bool
  SUPPORT_FLOOD_COOLANT :: bool
  SUPPORT_MIST_COOLANT :: bool
  USE_FMAX :: bool
  FMAX_SPEED :: int
  spindle_state :: string
  spindle_dir :: string
  coolant_mode :: string
  MOTION_MODE :: string
  UNITS :: string
  UNIT_FORMAT :: string
  UNIT_SPEED_FORMAT :: string
  AXIS_PRECISION :: nat
  FEED_PRECISION :: nat
  SPINDLE_DECIMALS :: nat
  FINISH_LABEL :: string
  PREAMBLE :: string
  POSTAMBLE :: string
  SAFETYBLOCK :: string
  TOOLRETURN :: string
  PRE_OPERATION :: string
  POST_OPERATION :: string
  TOOL_CHANGE :: string

text \<open>
  What the host application computes and the script only calls: the unit conversion
  \<open>Quantity(x, Length).getValueAs(unit)\<close> and \<open>Quantity(x, Velocity).getValueAs(unit)\<close>,
  \<open>str\<close> of a float, the name of the active document's file and the clock.
\<close>

record Host =
  length_as :: "string \<Rightarrow> pyfloat \<Rightarrow> pyfloat"
  velocity_as :: "string \<Rightarrow> pyfloat \<Rightarrow> pyfloat"
  str_float :: "pyfloat \<Rightarrow> string"
  cam_file :: string
  now :: string

type_synonym Gcode = "string list"

section \<open>Formatting\<close>

definition create_comment :: "Values \<Rightarrow> string \<Rightarrow> string" where
  "create_comment values comment_string =
     COMMENT_PREFIX values @ comment_string @ COMMENT_POSTFIX values"

definition format_parameter :: "Values \<Rightarrow> string \<Rightarrow> string" where
  "format_parameter values value0 =
     (let value1 = (if NORMALIZE_PARAMETERS values \<and> CHR ''.'' \<in> set value0
                    then rstrip (CHR ''.'') (rstrip (CHR ''0'') value0) else value0)
      in if DECIMAL_COMMAS values then replace_point value1 else value1)"

definition format_for_axis :: "Host \<Rightarrow> Values \<Rightarrow> pyfloat \<Rightarrow> string" where
  "format_for_axis host values number =
     format_parameter values
       (format_f True (AXIS_PRECISION values) (length_as host (UNIT_FORMAT values) number))"

definition format_for_feed :: "Host \<Rightarrow> Values \<Rightarrow> pyfloat \<Rightarrow> string" where
  "format_for_feed host values number =
     format_parameter values
       (format_f False (FEED_PRECISION values)
          (velocity_as host (UNIT_SPEED_FORMAT values) number))"

definition format_for_spindle :: "Values \<Rightarrow> pyfloat \<Rightarrow> string" where
  "format_for_spindle values number =
     format_parameter values (format_f False (SPINDLE_DECIMALS values) number)"



section \<open>Commands, path objects and the job\<close>

text \<open>A command of a path: \<open>command.Name\<close> and the dictionary \<open>command.Parameters\<close>.\<close>

record Command =
  Name :: string
  Parameters :: params

text \<open>
  An object of the list handed to \<open>export\<close>, or of a group: \<open>Path\<close> and \<open>Group\<close> are
  \<open>None\<close> when the object has no such attribute; \<open>IsToolController\<close> is the test
  \<open>hasattr(item, "Proxy") and isinstance(item.Proxy, ToolController)\<close>; \<open>Active\<close> is what
  \<open>PathUtil.activeForOp\<close> answers for the object and \<open>CoolantMode\<close> what
  \<open>PathUtil.coolantModeForOp\<close> answers.
\<close>

datatype pathobj = PathObj
  (ObjName: string)
  (Label: string)
  (Path: "Command list option")
  (Group: "pathobj list option")
  (IsToolController: bool)
  (ToolNumber: int)
  (SpindleDir: string)
  (SpindleSpeed: pyfloat)
  (Active: bool)
  (CoolantMode: string)

text \<open>
  The stock of a job: \<open>PlacementBase\<close> is \<open>None\<close> when the stock has no placement with a
  base; \<open>BoundBox\<close> is what \<open>shapeBoundBox\<close> answers, as (XMin, YMin, ZMin, XMax, YMax, ZMax).
\<close>

record Stock =
  StockType :: string
  PlacementBase :: "(pyfloat \<times> pyfloat \<times> pyfloat) option"
  Length :: pyfloat
  Width :: pyfloat
  Height :: pyfloat
  Radius :: pyfloat
  BoundBox :: "pyfloat \<times> pyfloat \<times> pyfloat \<times> pyfloat \<times> pyfloat \<times> pyfloat"

text \<open>The job \<open>findParentJob\<close> answers: its label and its stock, when it has them.\<close>

record Job =
  JobLabel :: "string option"
  JobStock :: "Stock option"

section \<open>Program begin and end\<close>

definition pgm_job_name :: "Values \<Rightarrow> Job \<Rightarrow> string" where
  "pgm_job_name values current_job =
     (let program_name = (case JobLabel current_job of None \<Rightarrow> ''New'' | Some l \<Rightarrow> l)
      in if PGM_UPPERCASE values then upper program_name else program_name)"

definition pgm_unit :: "Values \<Rightarrow> string" where
  "pgm_unit values =
     (if UNITS values = ''G21'' then ''MM''
      else if UNITS values = ''G20'' then ''INCH''
      else '''')"

definition output_pgm_begin :: "Values \<Rightarrow> Gcode \<Rightarrow> Job \<Rightarrow> Gcode" where
  "output_pgm_begin values gcode current_job =
     gcode @ [''BEGIN PGM '' @ pgm_job_name values current_job @ '' '' @ pgm_unit values]"

definition output_pgm_end :: "Values \<Rightarrow> Gcode \<Rightarrow> Job \<Rightarrow> Gcode" where
  "output_pgm_end values gcode current_job =
     gcode @ [''END PGM '' @ pgm_job_name values current_job @ '' '' @ pgm_unit values]"

section \<open>Coolant\<close>

text \<open>
  The \<open>match\<close> on (mode, flood supported, mist supported), first case first: the mode used
  and the command, or \<open>None\<close> for the last case, which only logs a warning.
\<close>

definition coolant_match :: "string \<Rightarrow> bool \<Rightarrow> bool \<Rightarrow> (string \<times> string) option" where
  "coolant_match mode flood mist =
     (if mode = ''None'' then Some (''None'', ''M9'')
      else if (mode = ''Flood'' \<and> flood) \<or> (mode = ''Mist'' \<and> flood \<and> \<not> mist)
        then Some (''Flood'', ''M8'')
      else if (mode = ''Mist'' \<and> mist) \<or> (mode = ''Flood'' \<and> \<not> flood \<and> mist)
        then Some (''Mist'', ''M7'')
      else None)"

definition coolant_comment :: "string \<Rightarrow> string \<Rightarrow> string" where
  "coolant_comment new_coolant_mode used_coolant_mode =
     (if new_coolant_mode = ''None'' then ''Coolant Off''
      else if new_coolant_mode = used_coolant_mode then ''Coolant On: '' @ new_coolant_mode
      else ''Coolant On: '' @ new_coolant_mode @ '' not available, using '' @ used_coolant_mode)"

text \<open>\<open>output_coolant_update\<close> of \<open>heidenhain_post.py\<close>: it returns the values and the buffer.\<close>

definition output_coolant_update :: "Values \<Rightarrow> Gcode \<Rightarrow> pathobj \<Rightarrow> Values \<times> Gcode" where
  "output_coolant_update values gcode obj =
     (let new_coolant_mode = CoolantMode obj;
          prev_coolant_mode = coolant_mode values
      in if ENABLE_COOLANT values \<and> prev_coolant_mode \<noteq> new_coolant_mode then
           (case coolant_match new_coolant_mode (SUPPORT_FLOOD_COOLANT values)
                   (SUPPORT_MIST_COOLANT values) of
              None \<Rightarrow> (values, gcode)
            | Some (used_coolant_mode, command) \<Rightarrow>
                (values\<lparr>coolant_mode := used_coolant_mode\<rparr>,
                 (if OUTPUT_COMMENTS values
                  then gcode @
                    [create_comment values (coolant_comment new_coolant_mode used_coolant_mode)]
                  else gcode) @ [command]))
         else (values, gcode))"

text \<open>
  \<open>output_coolant_update\<close> of \<open>refactored_heidenhain_post.py\<close>: it receives the mode, does
  not compare it with a tracked one and assigns nothing in \<open>values\<close>.
\<close>

definition refactored_output_coolant_update :: "Values \<Rightarrow> Gcode \<Rightarrow> string \<Rightarrow> Gcode" where
  "refactored_output_coolant_update values gcode coolant_mode' =
     (if ENABLE_COOLANT values then
        (case coolant_match coolant_mode' (SUPPORT_FLOOD_COOLANT values)
                (SUPPORT_MIST_COOLANT values) of
           None \<Rightarrow> gcode
         | Some (used_coolant_mode, command) \<Rightarrow>
             (if OUTPUT_COMMENTS values
              then gcode @
                [create_comment values (coolant_comment coolant_mode' used_coolant_mode)]
              else gcode) @ [command])
      else gcode)"

section \<open>Line numbers\<close>

text \<open>
  The loop of \<open>add_linenumbers\<close> over the buffer: a line is numbered when
  \<open>LINE_NUMBER_ON_COMMENTS\<close> is set or it does not start with the comment prefix, and each
  numbered line advances \<open>line_number\<close> by \<open>LINE_INCREMENT\<close>.
\<close>

fun number_lines :: "Values \<Rightarrow> Gcode \<Rightarrow> Values \<times> Gcode" where
  "number_lines values [] = (values, [])"
| "number_lines values (line # rest) =
     (if (\<not> startswith line (COMMENT_PREFIX values) \<and> \<not> LINE_NUMBER_ON_COMMENTS values)
         \<or> LINE_NUMBER_ON_COMMENTS values
      then
        (let numbered =
               LINE_PREFIX values @ str_int (line_number values) @ LINE_POSTFIX values @ line;
             (values', rest') =
               number_lines (values\<lparr>line_number := line_number values + LINE_INCREMENT values\<rparr>)
                 rest
         in (values', numbered # rest'))
      else
        (let (values', rest') = number_lines values rest in (values', line # rest')))"

definition add_linenumbers :: "Values \<Rightarrow> Gcode \<Rightarrow> Values \<times> Gcode" where
  "add_linenumbers values gcode =
     (if \<not> OUTPUT_LINE_NUMBERS values then (values, gcode) else number_lines values gcode)"

section \<open>Errors and Python operators on parameter values\<close>

definition bind_err :: "error + 'a \<Rightarrow> ('a \<Rightarrow> error + 'b) \<Rightarrow> error + 'b" where
  "bind_err m f = (case m of Inl e \<Rightarrow> Inl e | Inr a \<Rightarrow> f a)"

text \<open>
  \<open>Units.Quantity(v, unit)\<close> needs a number: handed the string of an \<open>"R"\<close> or \<open>"D"\<close> entry it
  raises TypeError.
\<close>

definition to_number :: "pyval \<Rightarrow> error + pyfloat" where
  "to_number v = (case v of Num x \<Rightarrow> Inr x | Str s \<Rightarrow> Inl TypeError)"

text \<open>\<open>a + b\<close>: numbers add, strings concatenate, a number and a string raise TypeError.\<close>

definition py_add :: "pyval \<Rightarrow> pyval \<Rightarrow> error + pyval" where
  "py_add a b =
     (case (a, b) of
        (Num x, Num y) \<Rightarrow> Inr (Num (float_add x y))
      | (Str s, Str t) \<Rightarrow> Inr (Str (s @ t))
      | _ \<Rightarrow> Inl TypeError)"

text \<open>\<open>str(v)\<close>: a string is itself, a float is printed by the host's \<open>str\<close>.\<close>

definition py_str :: "Host \<Rightarrow> pyval \<Rightarrow> string" where
  "py_str host v = (case v of Str s \<Rightarrow> s | Num x \<Rightarrow> str_float host x)"

definition axis_names :: "string list" where
  "axis_names = [''X'', ''Y'', ''Z'', ''A'', ''B'', ''C'']"

section \<open>Linear moves\<close>

text \<open>
  One round of the loop of \<open>output_line\<close> over \<open>PARAMETER_ORDER\<close>.  The state is the line so
  far, \<open>command.Parameters\<close> and \<open>current_parameters\<close>; \<open>name\<close> is \<open>command.Name\<close>.  The
  \<open>"M"\<close> case reads the local \<open>point_line\<close>, which \<open>output_line\<close> never assigns: NameError.
\<close>

definition line_step ::
  "Host \<Rightarrow> Values \<Rightarrow> string \<Rightarrow> string \<Rightarrow> string \<times> params \<times> params \<Rightarrow>
     error + (string \<times> params \<times> params)" where
  "line_step host values name p st =
     (case st of (line, cp0, cur) \<Rightarrow>
        let FMAX = true_div (FMAX_SPEED values) 60;
            cp = (if name = ''G0'' then cp0(''F'' \<mapsto> Num FMAX) else cp0)
        in case cp p of
             None \<Rightarrow> Inr (line, cp, cur)
           | Some v \<Rightarrow>
               if p \<in> set axis_names then
                 if MOTION_MODE values = ''G91'' then Inr (line, cp, cur(p \<mapsto> Num (Fin 0)))
                 else
                   bind_err (getitem cur p) (\<lambda>c.
                     if \<not> py_eq v c then
                       bind_err (to_number v) (\<lambda>x.
                         Inr (line @ '' '' @ p @ format_for_axis host values x, cp, cur(p \<mapsto> v)))
                     else Inr (line, cp, cur))
               else if p = ''R'' then
                 bind_err (getitem cur ''R'') (\<lambda>c.
                   if \<not> py_eq v c then Inr (line @ '' R'' @ py_str host v, cp, cur(''R'' \<mapsto> v))
                   else Inr (line, cp, cur))
               else if p = ''F'' then
                 bind_err (getitem cur ''F'') (\<lambda>c.
                   if \<not> py_eq v c then
                     if USE_FMAX values \<and> py_eq v (Num FMAX)
                     then Inr (line @ '' F MAX'', cp, cur(''F'' \<mapsto> v))
                     else
                       bind_err (to_number v) (\<lambda>x.
                         Inr (line @ '' F'' @ format_for_feed host values x, cp, cur(''F'' \<mapsto> v)))
                   else Inr (line, cp, cur))
               else if p = ''S'' then Inr (line, cp, cur)
               else if p = ''M'' then Inl NameError
               else Inr (line, cp, cur))"

fun line_loop ::
  "Host \<Rightarrow> Values \<Rightarrow> string \<Rightarrow> string list \<Rightarrow> string \<times> params \<times> params \<Rightarrow>
     error + (string \<times> params \<times> params)" where
  "line_loop host values name [] st = Inr st"
| "line_loop host values name (p # ps) st =
     bind_err (line_step host values name p st) (line_loop host values name ps)"

text \<open>
  \<open>output_line\<close>: the buffer, the command (its dictionary is assigned to) and
  \<open>current_parameters\<close> after the call, or the exception raised.
\<close>

definition output_line ::
  "Host \<Rightarrow> Values \<Rightarrow> Gcode \<Rightarrow> Command \<Rightarrow> params \<Rightarrow> error + (Gcode \<times> Command \<times> params)" where
  "output_line host values gcode command current_parameters =
     bind_err
       (line_loop host values (Name command) (PARAMETER_ORDER values)
          (''L'', (Parameters command)(''R'' \<mapsto> Str ''0''), current_parameters))
       (\<lambda>(line, cp, cur).
          Inr (if line = ''L'' then gcode else gcode @ [line],
               command\<lparr>Parameters := cp\<rparr>, cur))"

section \<open>Circular moves\<close>

text \<open>
  The first loop of \<open>output_arc\<close> in absolute mode, one pair (\<open>a\<close>, \<open>b\<close>) of
  (\<open>X\<close>, \<open>I\<close>), (\<open>Y\<close>, \<open>J\<close>), (\<open>Z\<close>, \<open>K\<close>): the centre is the tracked position plus the offset,
  computed before the position is replaced by the command's.
\<close>

definition arc_pair :: "params \<Rightarrow> string \<times> string \<Rightarrow> params \<Rightarrow> error + params" where
  "arc_pair cp ab cur =
     (case ab of (a, b) \<Rightarrow>
        bind_err
          (case cp b of
             None \<Rightarrow> Inr cur
           | Some off \<Rightarrow>
               bind_err (getitem cur a) (\<lambda>pos.
                 bind_err (py_add pos off) (\<lambda>centre. Inr (cur(b \<mapsto> centre)))))
          (\<lambda>cur1. case cp a of None \<Rightarrow> Inr cur1 | Some v \<Rightarrow> Inr (cur1(a \<mapsto> v))))"

fun arc_pairs :: "params \<Rightarrow> (string \<times> string) list \<Rightarrow> params \<Rightarrow> error + params" where
  "arc_pairs cp [] cur = Inr cur"
| "arc_pairs cp (ab # rest) cur = bind_err (arc_pair cp ab cur) (arc_pairs cp rest)"

text \<open>
  One round of the second loop of \<open>output_arc\<close>.  The state is the centre line, the point
  line and \<open>current_parameters\<close>; \<open>cp\<close> is \<open>command.Parameters\<close>, which the loop only reads.
\<close>

definition arc_step ::
  "Host \<Rightarrow> Values \<Rightarrow> params \<Rightarrow> string \<Rightarrow> string \<times> string \<times> params \<Rightarrow>
     error + (string \<times> string \<times> params)" where
  "arc_step host values cp p st =
     (case st of (center_line, point_line, cur) \<Rightarrow>
        let FMAX = true_div (FMAX_SPEED values) 60
        in case cp p of
             None \<Rightarrow> Inr st
           | Some v \<Rightarrow>
               if p \<in> set [''X'', ''Y'', ''Z''] then
                 if p = ''Z'' then Inr st
                 else if MOTION_MODE values = ''G91''
                   then Inr (center_line, point_line, cur(p \<mapsto> Num (Fin 0)))
                 else
                   bind_err (getitem cur p) (\<lambda>c.
                     bind_err (to_number c) (\<lambda>x.
                       Inr (center_line,
                            point_line @ '' '' @ p @ format_for_axis host values x, cur)))
               else if p \<in> set [''I'', ''J'', ''K''] then
                 if p = ''K'' then Inr st
                 else
                   bind_err (getitem cur p) (\<lambda>c.
                     bind_err (to_number c) (\<lambda>x.
                       Inr (center_line @ (if p = ''I'' then '' X'' else '' Y'')
                              @ format_for_axis host values x,
                            point_line, cur)))
               else if p = ''D'' then Inr (center_line, point_line @ py_str host v, cur)
               else if p = ''R'' then
                 bind_err (getitem cur ''R'') (\<lambda>c.
                   if \<not> py_eq v c
                   then Inr (center_line, point_line @ '' R'' @ py_str host v, cur(''R'' \<mapsto> v))
                   else Inr st)
               else if p = ''F'' then
                 bind_err (getitem cur ''F'') (\<lambda>c.
                   if \<not> py_eq v c then
                     if USE_FMAX values \<and> py_eq v (Num FMAX)
                     then Inr (center_line, point_line @ '' F MAX'', cur(''F'' \<mapsto> v))
                     else
                       bind_err (to_number v) (\<lambda>x.
                         Inr (center_line,
                              point_line @ '' F'' @ format_for_feed host values x,
                              cur(''F'' \<mapsto> v)))
                   else Inr st)
               else if p = ''M'' then Inr (center_line, point_line @ py_str host v, cur)
               else Inr st)"

fun arc_loop ::
  "Host \<Rightarrow> Values \<Rightarrow> params \<Rightarrow> string list \<Rightarrow> string \<times> string \<times> params \<Rightarrow>
     error + (string \<times> string \<times> params)" where
  "arc_loop host values cp [] st = Inr st"
| "arc_loop host values cp (p # ps) st =
     bind_err (arc_step host values cp p st) (arc_loop host values cp ps)"

definition output_arc ::
  "Host \<Rightarrow> Values \<Rightarrow> Gcode \<Rightarrow> Command \<Rightarrow> params \<Rightarrow> error + (Gcode \<times> Command \<times> params)" where
  "output_arc host values gcode command current_parameters =
     bind_err
       (if MOTION_MODE values = ''G91'' then Inr current_parameters
        else arc_pairs (Parameters command) [(''X'', ''I''), (''Y'', ''J''), (''Z'', ''K'')]
               current_parameters)
       (\<lambda>cur0.
          let cp0 = Parameters command;
              cp1 = (if Name command = ''G2'' then cp0(''D'' \<mapsto> Str '' DR-'')
                     else if Name command = ''G3'' then cp0(''D'' \<mapsto> Str '' DR+'')
                     else cp0);
              cp = cp1(''R'' \<mapsto> Str ''0'')
          in bind_err (arc_loop host values cp (PARAMETER_ORDER values) (''CC'', ''C'', cur0))
               (\<lambda>(center_line, point_line, cur).
                  Inr ((if center_line \<noteq> ''CC'' then gcode @ [center_line] else gcode)
                         @ [point_line],
                       command\<lparr>Parameters := cp\<rparr>, cur)))"

section \<open>Stops and tool changes\<close>

definition output_optional_stop :: "Values \<Rightarrow> Gcode \<Rightarrow> Gcode" where
  "output_optional_stop values gcode =
     (if OUTPUT_COMMENTS values then gcode @ [create_comment values ''Optional stop'']
      else gcode) @ [''M1'']"

definition output_forced_stop :: "Values \<Rightarrow> Gcode \<Rightarrow> Gcode" where
  "output_forced_stop values gcode =
     (if OUTPUT_COMMENTS values then gcode @ [create_comment values ''Forced stop'']
      else gcode) @ [''M2'']"

definition output_tool_change :: "Values \<Rightarrow> Gcode \<Rightarrow> pathobj \<Rightarrow> Values \<times> Gcode" where
  "output_tool_change values gcode tc =
     (let gcode1 = (if OUTPUT_COMMENTS values
                    then gcode @ [create_comment values ''Begin toolchange''] else gcode);
          (values2, gcode2) =
            (if OUTPUT_TOOL_CHANGE values then
               let (values1, gcode_a) =
                     (if STOP_SPINDLE_FOR_TOOL_CHANGE values \<and> spindle_state values \<noteq> ''None''
                      then (values\<lparr>spindle_state := ''None''\<rparr>, gcode1 @ [''M5''])
                      else (values, gcode1));
                   values_b = values1\<lparr>spindle_dir := SpindleDir tc\<rparr>;
                   gcode_b = gcode_a @
                     [''TOOL CALL '' @ str_int (ToolNumber tc) @ '' Z S''
                        @ format_for_spindle values_b (SpindleSpeed tc)];
                   gcode_c = gcode_b @ [''M6''];
                   gcode_d = (if spindle_dir values_b = ''Forward'' then gcode_c @ [''M3'']
                              else if spindle_dir values_b = ''Reverse'' then gcode_c @ [''M4'']
                              else gcode_c)
               in (values_b, gcode_d @ splitlines (TOOL_CHANGE values_b))
             else (values, gcode1))
      in (values2,
          if OUTPUT_COMMENTS values2
          then gcode2 @ [create_comment values2 ''End toolchange''] else gcode2))"

section \<open>Parsing a path\<close>

text \<open>\<open>s.replace([a, b], new)\<close> for a pattern of two characters, scanning from the left.\<close>

fun replace2 :: "char \<Rightarrow> char \<Rightarrow> string \<Rightarrow> string \<Rightarrow> string" where
  "replace2 a b new (x # y # s) =
     (if x = a \<and> y = b then new @ replace2 a b new s else x # replace2 a b new (y # s))"
| "replace2 a b new s = s"

text \<open>\<open>sub in s\<close> for strings.\<close>

fun contains :: "string \<Rightarrow> string \<Rightarrow> bool" where
  "contains sub [] = (sub = [])"
| "contains sub (c # s) = (startswith (c # s) sub \<or> contains sub s)"

text \<open>The normalisation \<open>G0x -> Gx\<close> and \<open>M0x -> Mx\<close> of a command name.\<close>

definition normalize_name :: "string \<Rightarrow> string" where
  "normalize_name name =
     (let n1 = (if name \<noteq> ''G0'' then replace2 (CHR ''G'') (CHR ''0'') ''G'' name else name)
      in if n1 \<noteq> ''M0'' then replace2 (CHR ''M'') (CHR ''0'') ''M'' n1 else n1)"

text \<open>The dictionary \<open>current_parameters\<close> as \<open>parse_a_path\<close> fills it before its loop.\<close>

definition initial_parameters :: params where
  "initial_parameters =
     [''X'' \<mapsto> Num (Fin 123456789), ''Y'' \<mapsto> Num (Fin 123456789), ''Z'' \<mapsto> Num (Fin 123456789),
      ''A'' \<mapsto> Num (Fin 123456789), ''B'' \<mapsto> Num (Fin 123456789), ''C'' \<mapsto> Num (Fin 123456789),
      ''I'' \<mapsto> Num (Fin 123456789), ''J'' \<mapsto> Num (Fin 123456789), ''K'' \<mapsto> Num (Fin 123456789),
      ''R'' \<mapsto> Str '''', ''D'' \<mapsto> Str '''',
      ''F'' \<mapsto> Num (Fin 123456789), ''S'' \<mapsto> Num (Fin 123456789)]"

text \<open>
  The body of the loop of \<open>parse_a_path\<close> for one command.  The routines called receive
  the command itself, so they see the name as the path has it, not the normalised one.
  What they assign in the command's dictionary (\<open>"R"\<close>, \<open>"D"\<close>, the \<open>"F"\<close> of a rapid move) is
  assigned again before it is read whenever the command is parsed again, so the commands
  of the path object are not replaced here.
\<close>

definition parse_command ::
  "Host \<Rightarrow> pathobj \<Rightarrow> Command \<Rightarrow> Values \<times> Gcode \<times> params \<Rightarrow>
     error + (Values \<times> Gcode \<times> params)" where
  "parse_command host pathobj command st =
     (case st of (values, gcode, cur) \<Rightarrow>
        let command_name = normalize_name (Name command)
        in if command_name = [] \<and> \<not> OUTPUT_BLANK_LINES values then Inr st
           else
             let values1 = (if command_name \<in> set [''G90'', ''G91'']
                            then values\<lparr>MOTION_MODE := command_name\<rparr> else values)
             in bind_err
                  (if command_name \<in> set [''G0'', ''G1'']
                     then output_line host values1 gcode command cur
                   else if command_name \<in> set [''G2'', ''G3'']
                     then output_arc host values1 gcode command cur
                   else Inr (gcode, command, cur))
                  (\<lambda>(gcode1, command1, cur1).
                     if command_name = ''M1''
                       then Inr (values1, output_optional_stop values1 gcode1, cur1)
                     else if command_name \<in> set [''M2'', ''M30'']
                       then Inr (values1, output_forced_stop values1 gcode1, cur1)
                     else if command_name = ''M6''
                       then (case output_tool_change values1 gcode1 pathobj of
                               (values2, gcode2) \<Rightarrow> Inr (values2, gcode2, cur1))
                     else Inr (values1, gcode1, cur1)))"

fun parse_commands ::
  "Host \<Rightarrow> pathobj \<Rightarrow> Command list \<Rightarrow> Values \<times> Gcode \<times> params \<Rightarrow>
     error + (Values \<times> Gcode \<times> params)" where
  "parse_commands host pathobj [] st = Inr st"
| "parse_commands host pathobj (command # rest) st =
     bind_err (parse_command host pathobj command st) (parse_commands host pathobj rest)"

text \<open>\<open>parse_a_path\<close> for an object that has a path, whose commands are \<open>commands\<close>.\<close>

definition parse_a_path ::
  "Host \<Rightarrow> Values \<Rightarrow> Gcode \<Rightarrow> pathobj \<Rightarrow> Command list \<Rightarrow> error + (Values \<times> Gcode)" where
  "parse_a_path host values gcode pathobj commands =
     (if contains ''Fixture'' (ObjName pathobj) then Inr (values, gcode)
      else
        bind_err (parse_commands host pathobj commands (values, gcode, initial_parameters))
          (\<lambda>(values', gcode', cur). Inr (values', gcode')))"

fun parse_a_group :: "Host \<Rightarrow> Values \<Rightarrow> Gcode \<Rightarrow> pathobj \<Rightarrow> error + (Values \<times> Gcode)"
  and parse_members :: "Host \<Rightarrow> Values \<Rightarrow> Gcode \<Rightarrow> pathobj list \<Rightarrow> error + (Values \<times> Gcode)"
  where
  "parse_a_group host values gcode (PathObj n l path (Some members) tc tn sd ss act cm) =
     parse_members host values
       (if OUTPUT_COMMENTS values then gcode @ [create_comment values (''Compound: '' @ l)]
        else gcode)
       members"
| "parse_a_group host values gcode (PathObj n l None None tc tn sd ss act cm) =
     Inr (values, gcode)"
| "parse_a_group host values gcode (PathObj n l (Some commands) None tc tn sd ss act cm) =
     parse_a_path host values
       (if OUTPUT_PATH_LABELS values \<and> OUTPUT_COMMENTS values
        then gcode @ [create_comment values (''Compound: '' @ l)] else gcode)
       (PathObj n l (Some commands) None tc tn sd ss act cm) commands"
| "parse_members host values gcode [] = Inr (values, gcode)"
| "parse_members host values gcode (p # ps) =
     bind_err (parse_a_group host values gcode p)
       (\<lambda>(values', gcode'). parse_members host values' gcode' ps)"

section \<open>The blocks around the operations\<close>

definition output_header :: "Host \<Rightarrow> Values \<Rightarrow> Gcode \<Rightarrow> Gcode" where
  "output_header host values gcode =
     (if \<not> OUTPUT_HEADER values then gcode
      else gcode @
        [create_comment values ''Exported by FreeCAD'',
         create_comment values (''Post Processor: '' @ POSTPROCESSOR_FILE_NAME values),
         create_comment values (''Cam File: '' @ cam_file host),
         create_comment values (''Output Time: '' @ now host)])"

definition output_safetyblock :: "Values \<Rightarrow> Gcode \<Rightarrow> Gcode" where
  "output_safetyblock values gcode = gcode @ splitlines (SAFETYBLOCK values)"

definition output_tool_list :: "Values \<Rightarrow> Gcode \<Rightarrow> pathobj list \<Rightarrow> Gcode" where
  "output_tool_list values gcode objectslist =
     (if OUTPUT_COMMENTS values \<and> LIST_TOOLS_IN_PREAMBLE values
      then gcode @
        map (\<lambda>item. create_comment values
               (''T'' @ str_int (ToolNumber item) @ ''='' @ Label item))
          (filter IsToolController objectslist)
      else gcode)"

definition output_preamble :: "Values \<Rightarrow> Gcode \<Rightarrow> Gcode" where
  "output_preamble values gcode =
     (if OUTPUT_COMMENTS values then gcode @ [create_comment values ''Begin preamble'']
      else gcode) @ splitlines (PREAMBLE values)"

text \<open>
  \<open>output_stock_definition\<close>.  The dictionary \<open>offset\<close> is filled from the placement of the
  stock; reading it when the stock has none raises KeyError.
\<close>

definition stock_box ::
  "Host \<Rightarrow> Values \<Rightarrow> Gcode \<Rightarrow> (pyfloat \<times> pyfloat \<times> pyfloat) option \<Rightarrow>
     pyfloat \<times> pyfloat \<times> pyfloat \<Rightarrow> error + Gcode" where
  "stock_box host values gcode offset size' =
     (case offset of
        None \<Rightarrow> Inl KeyError
      | Some (ox, oy, oz) \<Rightarrow>
          (case size' of (sx, sy, sz) \<Rightarrow>
             Inr (gcode @
               [''BLK FORM 0.1 Z X'' @ format_for_axis host values ox
                  @ '' Y'' @ format_for_axis host values oy
                  @ '' Z'' @ format_for_axis host values oz,
                ''BLK FORM 0.2 X'' @ format_for_axis host values (float_add sx ox)
                  @ '' Y'' @ format_for_axis host values (float_add sy oy)
                  @ '' Z'' @ format_for_axis host values (float_add sz oz)])))"

definition output_stock_definition :: "Host \<Rightarrow> Values \<Rightarrow> Gcode \<Rightarrow> Job \<Rightarrow> error + Gcode" where
  "output_stock_definition host values gcode current_job =
     (case JobStock current_job of
        None \<Rightarrow> Inr gcode
      | Some stock \<Rightarrow>
          if StockType stock = ''CreateBox'' then
            stock_box host values gcode (PlacementBase stock)
              (Length stock, Width stock, Height stock)
          else if StockType stock = ''CreateCylinder'' then
            if SUPPORT_CYLINDER_STOCK values then
              (case PlacementBase stock of
                 None \<Rightarrow> Inl KeyError
               | Some (ox, oy, oz) \<Rightarrow>
                   Inr (gcode @
                     [''BLK FORM CYLINDER Z R'' @ format_for_axis host values (Radius stock)
                        @ '' L'' @ format_for_axis host values (Height stock)
                        @ '' DIST'' @ format_for_axis host values oz]))
            else
              (case PlacementBase stock of
                 None \<Rightarrow> Inl KeyError
               | Some (ox, oy, oz) \<Rightarrow>
                   stock_box host values gcode
                     (Some (float_sub ox (Radius stock), float_sub oy (Radius stock), oz))
                     (float_mul (Radius stock) (Fin 2), float_mul (Radius stock) (Fin 2),
                      Height stock))
          else if StockType stock = ''FromBase'' then
            (case BoundBox stock of (xmin, ymin, zmin, xmax, ymax, zmax) \<Rightarrow>
               stock_box host values gcode (Some (xmin, ymin, zmin))
                 (float_add (float_neg xmin) xmax, float_add (float_neg ymin) ymax,
                  float_add (float_neg zmin) zmax))
          else Inr gcode)"

definition output_start_bcnc :: "Values \<Rightarrow> Gcode \<Rightarrow> pathobj \<Rightarrow> Gcode" where
  "output_start_bcnc values gcode obj =
     (if OUTPUT_BCNC values
      then gcode @
        [create_comment values (''Block-name: '' @ Label obj),
         create_comment values ''Block-expand: 0'',
         create_comment values ''Block-enable: 1'']
      else gcode)"

definition output_preop :: "Values \<Rightarrow> Gcode \<Rightarrow> pathobj \<Rightarrow> Gcode" where
  "output_preop values gcode obj =
     (if OUTPUT_COMMENTS values
      then gcode @
        [if SHOW_OPERATION_LABELS values
         then create_comment values (''Begin operation: '' @ Label obj)
         else create_comment values ''Begin operation'']
        @ (if SHOW_MACHINE_UNITS values
           then [create_comment values (''Machine units: '' @ UNIT_SPEED_FORMAT values)]
           else [])
        @ (if OUTPUT_MACHINE_NAME values
           then [create_comment values
                   (''Machine: '' @ MACHINE_NAME values @ '', '' @ UNIT_SPEED_FORMAT values)]
           else [])
      else gcode) @ splitlines (PRE_OPERATION values)"

definition output_postop :: "Values \<Rightarrow> Gcode \<Rightarrow> pathobj \<Rightarrow> Gcode" where
  "output_postop values gcode obj =
     (if OUTPUT_COMMENTS values
      then gcode @
        [if SHOW_OPERATION_LABELS values
         then create_comment values (FINISH_LABEL values @ '' operation: '' @ Label obj)
         else create_comment values (FINISH_LABEL values @ '' operation'')]
      else gcode) @ splitlines (POST_OPERATION values)"

definition output_postamble_header :: "Values \<Rightarrow> Gcode \<Rightarrow> Gcode" where
  "output_postamble_header values gcode =
     (if OUTPUT_COMMENTS values then gcode @ [create_comment values ''Begin postamble'']
      else gcode)"

definition output_tool_return :: "Values \<Rightarrow> Gcode \<Rightarrow> Gcode" where
  "output_tool_return values gcode = gcode @ splitlines (TOOLRETURN values)"

definition output_postamble :: "Values \<Rightarrow> Gcode \<Rightarrow> Gcode" where
  "output_postamble values gcode = gcode @ splitlines (POSTAMBLE values)"

section \<open>The export\<close>

text \<open>The body of the loop of \<open>export\<close> over the objects, for one object.\<close>

definition export_object ::
  "Host \<Rightarrow> pathobj \<Rightarrow> Values \<times> Gcode \<Rightarrow> error + (Values \<times> Gcode)" where
  "export_object host obj st =
     (case st of (values, gcode) \<Rightarrow>
        if \<not> Active obj then Inr st
        else
          let gcode1 = output_start_bcnc values gcode obj;
              gcode2 = output_preop values gcode1 obj
          in case output_coolant_update values gcode2 obj of
               (values3, gcode3) \<Rightarrow>
                 bind_err (parse_a_group host values3 gcode3 obj)
                   (\<lambda>(values4, gcode4). Inr (values4, output_postop values4 gcode4 obj)))"

fun export_objects ::
  "Host \<Rightarrow> pathobj list \<Rightarrow> Values \<times> Gcode \<Rightarrow> error + (Values \<times> Gcode)" where
  "export_objects host [] st = Inr st"
| "export_objects host (obj # rest) st =
     bind_err (export_object host obj st) (export_objects host rest)"

text \<open>
  The buffer \<open>export\<close> builds before it numbers the lines, with the values at that point.
  \<open>current_job\<close> is the job \<open>findParentJob\<close> answers for the first object.
\<close>

definition export_lines ::
  "Host \<Rightarrow> Values \<Rightarrow> pathobj list \<Rightarrow> Job \<Rightarrow> error + (Values \<times> Gcode)" where
  "export_lines host values objectslist current_job =
     (let gcode1 = output_header host values [];
          gcode2 = output_safetyblock values gcode1;
          gcode3 = output_tool_list values gcode2 objectslist;
          gcode4 = output_preamble values gcode3;
          gcode5 = output_pgm_begin values gcode4 current_job
      in bind_err (output_stock_definition host values gcode5 current_job) (\<lambda>gcode6.
           bind_err (export_objects host objectslist (values, gcode6)) (\<lambda>(values7, gcode7).
             let gcode8 = output_pgm_end values7 gcode7 current_job;
                 gcode9 = output_postamble_header values7 gcode8;
                 gcode10 = output_tool_return values7 gcode9;
                 gcode11 = output_safetyblock values7 gcode10;
                 gcode12 = output_postamble values7 gcode11
             in Inr (values7, gcode12))))"

text \<open>
  What a call of \<open>export\<close> leaves: the value it returns (\<open>None\<close> is Python's \<open>None\<close>), the
  buffer it hands to \<open>finalize_export\<close> (\<open>None\<close> when it returns before) and the values.
\<close>

record Exported =
  returned :: "string option"
  finalized :: "Gcode option"
  values_after :: Values

definition export ::
  "Host \<Rightarrow> (pathobj \<Rightarrow> Job) \<Rightarrow> Values \<Rightarrow> pathobj list \<Rightarrow> string \<Rightarrow> error + Exported" where
  "export host findParentJob values objectslist filename =
     (if \<exists>obj \<in> set objectslist. Path obj = None
        then Inr \<lparr>returned = None, finalized = None, values_after = values\<rparr>
      else if length objectslist = 0
        then Inr \<lparr>returned = None, finalized = None, values_after = values\<rparr>
      else
        bind_err (export_lines host values objectslist (findParentJob (hd objectslist)))
          (\<lambda>(values1, gcode1).
             case add_linenumbers values1 gcode1 of
               (values2, gcode2) \<Rightarrow>
                 Inr \<lparr>returned = None, finalized = Some gcode2, values_after = values2\<rparr>))"

text \<open>
  The loop of \<open>process_postables\<close> over the sections \<open>_buildPostList\<close> answers: each part name
  is paired with what \<open>export\<close> returns, and the values go from one call to the next.
\<close>

fun process_sections ::
  "Host \<Rightarrow> (pathobj \<Rightarrow> Job) \<Rightarrow> Values \<Rightarrow> (string \<times> pathobj list) list \<Rightarrow>
     error + (string \<times> string option) list" where
  "process_sections host findParentJob values [] = Inr []"
| "process_sections host findParentJob values ((partname, sublist) # rest) =
     bind_err (export host findParentJob values sublist ''-'') (\<lambda>r.
       bind_err (process_sections host findParentJob (values_after r) rest) (\<lambda>sections.
         Inr ((partname, returned r) # sections)))"

definition process_postables ::
  "Host \<Rightarrow> (pathobj \<Rightarrow> Job) \<Rightarrow> Values \<Rightarrow> (string \<times> pathobj list) list \<Rightarrow>
     error + (string \<times> string option) list" where
  "process_postables host findParentJob values postables =
     process_sections host findParentJob values postables"

section \<open>What a linear move prints, in closed form\<close>

text \<open>The parameters \<open>output_line\<close> tracks: the axes, the radius compensation and the feed.\<close>

definition tracked_names :: "string list" where
  "tracked_names = axis_names @ [''R'', ''F'']"

text \<open>
  The command's dictionary as \<open>output_line\<close> leaves it: \<open>"R"\<close> is \<open>"0"\<close> and, for a command
  named \<open>G0\<close>, \<open>"F"\<close> is the rapid feed \<open>FMAX_SPEED / 60\<close>, whatever feed the command had.
\<close>

definition line_params :: "Values \<Rightarrow> Command \<Rightarrow> params" where
  "line_params values command =
     (let cp = (Parameters command)(''R'' \<mapsto> Str ''0'')
      in if Name command = ''G0'' then cp(''F'' \<mapsto> Num (true_div (FMAX_SPEED values) 60))
         else cp)"

text \<open>
  A parameter changes when the dictionary \<open>cp\<close> has a value for it and that value \<open>!=\<close> the
  tracked one.
\<close>

definition changed :: "params \<Rightarrow> params \<Rightarrow> string \<Rightarrow> bool" where
  "changed cp cur p =
     (case cp p of
        None \<Rightarrow> False
      | Some v \<Rightarrow> (case cur p of None \<Rightarrow> False | Some c \<Rightarrow> \<not> py_eq v c))"

text \<open>
  The word a parameter \<open>p\<close> contributes to the line in absolute mode, given the command's
  dictionary \<open>cp\<close> and the tracked values \<open>cur\<close>: nothing unless \<open>p\<close> changes.
\<close>

definition line_word :: "Host \<Rightarrow> Values \<Rightarrow> params \<Rightarrow> params \<Rightarrow> string \<Rightarrow> string" where
  "line_word host values cp cur p =
     (case cp p of
        None \<Rightarrow> []
      | Some v \<Rightarrow>
          if \<not> changed cp cur p then []
          else if p \<in> set axis_names then
            (case v of Num x \<Rightarrow> '' '' @ p @ format_for_axis host values x | Str s \<Rightarrow> [])
          else if p = ''R'' then '' R'' @ py_str host v
          else if p = ''F'' then
            (if USE_FMAX values \<and> py_eq v (Num (true_div (FMAX_SPEED values) 60))
             then '' F MAX''
             else (case v of Num x \<Rightarrow> '' F'' @ format_for_feed host values x | Str s \<Rightarrow> []))
          else [])"

text \<open>
  The tracked values after the loop over the parameters \<open>ps\<close>: a tracked parameter of \<open>ps\<close>
  that changes takes the value of the dictionary, every other entry stays.
\<close>

definition line_tracked :: "params \<Rightarrow> params \<Rightarrow> string list \<Rightarrow> params" where
  "line_tracked cp cur ps =
     (\<lambda>p. if p \<in> set ps \<and> p \<in> set tracked_names \<and> changed cp cur p then cp p else cur p)"

text \<open>The axis and feed entries of a dictionary are numbers.\<close>

definition numeric :: "params \<Rightarrow> bool" where
  "numeric cp = (\<forall>p \<in> set (axis_names @ [''F'']). \<forall>s. cp p \<noteq> Some (Str s))"

section \<open>What a circular move prints, in closed form\<close>

text \<open>\<open>s.endswith(t)\<close>.\<close>

definition endswith :: "string \<Rightarrow> string \<Rightarrow> bool" where
  "endswith s t = startswith (rev s) (rev t)"

text \<open>
  The command's dictionary as \<open>output_arc\<close> leaves it: \<open>"D"\<close> is the direction for a command
  named \<open>G2\<close> or \<open>G3\<close>, and \<open>"R"\<close> is \<open>"0"\<close>.
\<close>

definition arc_params :: "Command \<Rightarrow> params" where
  "arc_params command =
     (let cp0 = Parameters command;
          cp1 = (if Name command = ''G2'' then cp0(''D'' \<mapsto> Str '' DR-'')
                 else if Name command = ''G3'' then cp0(''D'' \<mapsto> Str '' DR+'')
                 else cp0)
      in cp1(''R'' \<mapsto> Str ''0''))"

text \<open>
  The tracked values after the first loop of \<open>output_arc\<close> in absolute mode, for numbers:
  the centre \<open>I\<close>, \<open>J\<close>, \<open>K\<close> is the position before the command plus the offset, and the
  position \<open>X\<close>, \<open>Y\<close>, \<open>Z\<close> is the command's.
\<close>

definition centre_of :: "params \<Rightarrow> params \<Rightarrow> string \<Rightarrow> string \<Rightarrow> pyval option" where
  "centre_of cp cur a b =
     (case cp b of
        None \<Rightarrow> cur b
      | Some off \<Rightarrow>
          (case (cur a, off) of
             (Some (Num pos), Num d) \<Rightarrow> Some (Num (float_add pos d))
           | _ \<Rightarrow> cur b))"

definition arc_tracked :: "params \<Rightarrow> params \<Rightarrow> params" where
  "arc_tracked cp cur =
     (\<lambda>p. if p \<in> set [''X'', ''Y'', ''Z''] then (case cp p of None \<Rightarrow> cur p | Some v \<Rightarrow> Some v)
          else if p = ''I'' then centre_of cp cur ''X'' ''I''
          else if p = ''J'' then centre_of cp cur ''Y'' ''J''
          else if p = ''K'' then centre_of cp cur ''Z'' ''K''
          else cur p)"

text \<open>
  The words a parameter \<open>p\<close> contributes to the centre line and to the point line in
  absolute mode, given the command's dictionary and the tracked values after the first
  loop.
\<close>

definition arc_centre_word :: "Host \<Rightarrow> Values \<Rightarrow> params \<Rightarrow> params \<Rightarrow> string \<Rightarrow> string" where
  "arc_centre_word host values cp cur p =
     (case cp p of
        None \<Rightarrow> []
      | Some v \<Rightarrow>
          if p = ''I'' \<or> p = ''J'' then
            (case cur p of
               Some (Num x) \<Rightarrow>
                 (if p = ''I'' then '' X'' else '' Y'') @ format_for_axis host values x
             | _ \<Rightarrow> [])
          else [])"

definition arc_point_word :: "Host \<Rightarrow> Values \<Rightarrow> params \<Rightarrow> params \<Rightarrow> string \<Rightarrow> string" where
  "arc_point_word host values cp cur p =
     (case cp p of
        None \<Rightarrow> []
      | Some v \<Rightarrow>
          if p = ''X'' \<or> p = ''Y'' then
            (case cur p of
               Some (Num x) \<Rightarrow> '' '' @ p @ format_for_axis host values x
             | _ \<Rightarrow> [])
          else if p = ''D'' \<or> p = ''M'' then py_str host v
          else if p = ''R'' \<or> p = ''F'' then line_word host values cp cur p
          else [])"

text \<open>The position, offset and feed entries of a dictionary are numbers.\<close>

definition arc_numeric :: "params \<Rightarrow> bool" where
  "arc_numeric cp =
     (\<forall>p \<in> set [''X'', ''Y'', ''Z'', ''I'', ''J'', ''K'', ''F'']. \<forall>s. cp p \<noteq> Some (Str s))"

text \<open>The order of the parameters that \<open>init_values\<close> sets.\<close>

definition standard_order :: "string list" where
  "standard_order =
     [''X'', ''Y'', ''Z'', ''A'', ''B'', ''C'', ''I'', ''J'', ''K'', ''R'', ''D'', ''F'', ''S'',
      ''M'']"

section \<open>The settings and the running state\<close>

text \<open>
  The settings in \<open>values\<close>: every key but the running state, which is the keys the routines
  assign (\<open>line_number\<close>, \<open>spindle_state\<close>, \<open>spindle_dir\<close>, \<open>coolant_mode\<close>, \<open>MOTION_MODE\<close>).
\<close>

definition settings :: "Values \<Rightarrow> Values" where
  "settings values =
     values\<lparr>line_number := 0, spindle_state := [], spindle_dir := [], coolant_mode := [],
       MOTION_MODE := []\<rparr>"

text \<open>The test of \<open>add_linenumbers\<close> on a line: whether the line gets a number.\<close>

definition is_numbered :: "Values \<Rightarrow> string \<Rightarrow> bool" where
  "is_numbered values line =
     ((\<not> startswith line (COMMENT_PREFIX values) \<and> \<not> LINE_NUMBER_ON_COMMENTS values)
      \<or> LINE_NUMBER_ON_COMMENTS values)"

section \<open>Example settings\<close>

text \<open>
  The settings \<open>init_values\<close> assigns, completed with metric defaults for the keys the
  parent class sets, and a host that converts millimetres to millimetres and mm/s to mm/min
  and prints a float of integral value the way \<open>str\<close> does.
\<close>

definition example_values :: Values where
  "example_values = \<lparr>
     POSTPROCESSOR_FILE_NAME = ''heidenhain_post'', MACHINE_NAME = ''Heidenhain'',
     OUTPUT_HEADER = False, OUTPUT_COMMENTS = False, OUTPUT_BCNC = False,
     OUTPUT_LINE_NUMBERS = True, OUTPUT_BLANK_LINES = True, OUTPUT_PATH_LABELS = False,
     OUTPUT_MACHINE_NAME = False, OUTPUT_TOOL_CHANGE = True, LIST_TOOLS_IN_PREAMBLE = True,
     SHOW_OPERATION_LABELS = True, SHOW_MACHINE_UNITS = True,
     STOP_SPINDLE_FOR_TOOL_CHANGE = True,
     PARAMETER_ORDER = [''X'', ''Y'', ''Z'', ''A'', ''B'', ''C'', ''I'', ''J'', ''K'', ''R'',
       ''D'', ''F'', ''S'', ''M''],
     line_number = 1, LINE_INCREMENT = 1, PGM_UPPERCASE = True,
     SUPPORT_CYLINDER_STOCK = False, DECIMAL_COMMAS = True, NORMALIZE_PARAMETERS = True,
     LINE_PREFIX = [], LINE_POSTFIX = ''  '', LINE_NUMBER_ON_COMMENTS = True,
     COMMENT_PREFIX = ''; ('', COMMENT_POSTFIX = '')'',
     ENABLE_COOLANT = True, SUPPORT_FLOOD_COOLANT = True, SUPPORT_MIST_COOLANT = False,
     USE_FMAX = True, FMAX_SPEED = 8000,
     spindle_state = ''None'', spindle_dir = ''None'', coolant_mode = ''None'',
     MOTION_MODE = ''G90'', UNITS = ''G21'', UNIT_FORMAT = ''mm'',
     UNIT_SPEED_FORMAT = ''mm/min'', AXIS_PRECISION = 3, FEED_PRECISION = 3,
     SPINDLE_DECIMALS = 0, FINISH_LABEL = ''Finish'',
     PREAMBLE = [], POSTAMBLE = [], SAFETYBLOCK = [], TOOLRETURN = [],
     PRE_OPERATION = [], POST_OPERATION = [], TOOL_CHANGE = [] \<rparr>"

definition example_host :: Host where
  "example_host = \<lparr>
     length_as = (\<lambda>u x. x), velocity_as = (\<lambda>u x. float_mul x (Fin 60)),
     str_float = (\<lambda>x. str_int \<lfloor>fval x\<rfloor> @ ''.0''),
     cam_file = ''part.FCStd'', now = ''2025-01-01 00:00:00'' \<rparr>"

text \<open>An operation that asks for flood coolant, one that asks for mist, and a job.\<close>

definition flood_op :: pathobj where
  "flood_op = PathObj ''Profile'' ''Profile'' (Some []) None False 0 ''Forward'' (Fin 0) True ''Flood''"

definition mist_op :: pathobj where
  "mist_op = PathObj ''Pocket'' ''Pocket'' (Some []) None False 0 ''Forward'' (Fin 0) True ''Mist''"

definition example_job :: Job where
  "example_job = \<lparr>JobLabel = Some ''Job'', JobStock = None\<rparr>"

text \<open>
  A feed move to X10 Y12.5 at 2.5 mm/s, which is 150 mm/min, the tracked values after it,
  and a move that carries an \<open>"M"\<close> parameter.
\<close>

definition move_cmd :: Command where
  "move_cmd = \<lparr>Name = ''G1'',
     Parameters = [''X'' \<mapsto> Num (Fin 10), ''Y'' \<mapsto> Num (Fin (25 / 2)),
       ''F'' \<mapsto> Num (Fin (5 / 2))]\<rparr>"

definition moved_parameters :: params where
  "moved_parameters =
     initial_parameters(''X'' \<mapsto> Num (Fin 10), ''Y'' \<mapsto> Num (Fin (25 / 2)),
       ''R'' \<mapsto> Str ''0'', ''F'' \<mapsto> Num (Fin (5 / 2)))"

definition m_cmd :: Command where
  "m_cmd = \<lparr>Name = ''G1'', Parameters = [''X'' \<mapsto> Num (Fin 10), ''M'' \<mapsto> Num (Fin 3)]\<rparr>"

text \<open>A clockwise arc from the tracked position to X20 Y12.5 around X15 Y12.5, with a feed.\<close>

definition arc_cmd :: Command where
  "arc_cmd = \<lparr>Name = ''G2'',
     Parameters = [''X'' \<mapsto> Num (Fin 20), ''Y'' \<mapsto> Num (Fin (25 / 2)), ''I'' \<mapsto> Num (Fin 5),
       ''J'' \<mapsto> Num (Fin 0), ''F'' \<mapsto> Num (Fin (5 / 4))]\<rparr>"


text \<open>
  A rapid move that carries the position and the feed that are tracked already, and those
  tracked values.
\<close>

definition rapid_cmd :: Command where
  "rapid_cmd = \<lparr>Name = ''G0'',
     Parameters = [''X'' \<mapsto> Num (Fin 1), ''F'' \<mapsto> Num (Fin 50)]\<rparr>"

definition rapid_tracked :: params where
  "rapid_tracked =
     initial_parameters(''X'' \<mapsto> Num (Fin 1), ''R'' \<mapsto> Str ''0'', ''F'' \<mapsto> Num (Fin 50))"

text \<open>
  A tool controller for tool 1 at 4000 rpm, turning forward, whose path is the tool change
  command, and an operation whose path is the move with the \<open>"M"\<close> parameter.
\<close>

definition tool_change_cmd :: Command where
  "tool_change_cmd = \<lparr>Name = ''M06'', Parameters = Map.empty\<rparr>"

definition tool_controller :: pathobj where
  "tool_controller =
     PathObj ''TC'' ''T1'' (Some [tool_change_cmd]) None True 1 ''Forward'' (Fin 4000) True
       ''None''"

definition m_op :: pathobj where
  "m_op = PathObj ''Profile'' ''Profile'' (Some [m_cmd]) None False 0 ''Forward'' (Fin 0) True
     ''None''"

section \<open>Properties of the formatting\<close>





















lemma floor_rat_numeral: "\<lfloor>numeral a / numeral b :: rat\<rfloor> = numeral a div numeral b"
proof -
  have "\<lfloor>rat_of_int (numeral a) / rat_of_int (numeral b)\<rfloor> = numeral a div numeral b"
    by (rule floor_divide_of_int_eq)
  then show ?thesis by simp
qed

lemma nat_digits_numeral:
  "nat_digits (numeral k) =
     (if numeral k < (10::nat) then [digit_char (numeral k)]
      else nat_digits (numeral k div 10) @ [digit_char (numeral k)])"
  by (rule nat_digits.simps)

lemma nat_digits_0: "nat_digits 0 = ''0''"
  by (simp add: nat_digits.simps digit_char_def)

lemma nat_digits_1: "nat_digits (Suc 0) = ''1''"
  by (simp add: nat_digits.simps digit_char_def)

lemma fixed_digits_numeral:
  "fixed_digits (numeral k) n = fixed_digits (pred_numeral k) (n div 10) @ [digit_char n]"
  by (simp only: numeral_eq_Suc [of k] fixed_digits.simps)

lemmas format_eval =
  format_for_axis_def format_for_feed_def format_for_spindle_def format_parameter_def
  format_f_def sign_str_def int_part_def frac_part_def scaled_def round_half_even_def
  rstrip_def replace_point_def digit_char_def str_int_def floor_rat_numeral
  nat_digits_numeral nat_digits_0 nat_digits_1 fixed_digits_numeral Let_def

lemmas string_eval =
  upper_def upper_char_def splitlines_def is_linebreak_def create_comment_def










lemma halvings_numeral:
  "halvings (numeral k) y = (if y < 2 then 0 else Suc (halvings (pred_numeral k) (y / 2)))"
  by (simp only: numeral_eq_Suc [of k] halvings.simps)

lemma doublings_numeral:
  "doublings (numeral k) y = (if 1 \<le> y then 0 else Suc (doublings (pred_numeral k) (y * 2)))"
  by (simp only: numeral_eq_Suc [of k] doublings.simps)

lemmas float_eval =
  round_double_def ulp_exponent_def scale2_def halvings_numeral doublings_numeral
  float_add_def float_sub_def float_mul_def float_neg_def true_div_def fval_def negative_def
  py_eq_def round_half_even_def floor_rat_numeral Let_def

text \<open>The rapid feed of the example settings: the float nearest to 8000 / 60.\<close>

lemma example_rapid_feed:
  "true_div (FMAX_SPEED example_values) 60 = Fin (4691249611844267 / 35184372088832)"
  by (simp add: float_eval example_values_def)





text \<open>More values: a negative zero, a tie, a negative number and a feed in mm/s.\<close>

lemma format_examples:
  "format_for_axis example_host example_values NegZero = ''-0''
   \<and> format_for_axis example_host example_values (Fin (- 1 / 4)) = ''-0,25''
   \<and> format_for_axis example_host example_values (Fin (1 / 16)) = ''+0,062''
   \<and> format_for_axis example_host example_values (Fin 100) = ''+100''
   \<and> format_for_feed example_host example_values (Fin (5 / 2)) = ''150''
   \<and> format_for_spindle example_values (Fin 4000) = ''4000''
   \<and> format_for_spindle example_values (Fin (5 / 2)) = ''2''
   \<and> format_parameter example_values ''1.500'' = ''1,5''"
  by (simp add: format_eval float_eval example_values_def example_host_def)

subsection \<open>Program begin and end\<close>

lemma output_pgm_lines:
  "output_pgm_begin values g current_job =
     g @ [''BEGIN PGM '' @ pgm_job_name values current_job @ '' '' @ pgm_unit values]
   \<and> output_pgm_end values g' current_job =
     g' @ [''END PGM '' @ pgm_job_name values current_job @ '' '' @ pgm_unit values]"
  by (simp add: output_pgm_begin_def output_pgm_end_def)

subsection \<open>Coolant\<close>

text \<open>
  C4: with \<open>ENABLE_COOLANT\<close> set and a mode that differs from the tracked one,
  \<open>output_coolant_update\<close> appends one command (after its comment when comments are on) and
  tracks the mode used: M9 for \<open>None\<close>; M8 for \<open>Flood\<close> with flood supported or \<open>Mist\<close> with
  only flood supported; M7 for \<open>Mist\<close> with mist supported or \<open>Flood\<close> with only mist
  supported.  With the mode unchanged, no supported option, or coolant disabled, the
  buffer and the values stay as they are.
\<close>

theorem output_coolant_update_cases:
  assumes m: "m = CoolantMode obj"
    and fl: "fl = SUPPORT_FLOOD_COOLANT values"
    and mi: "mi = SUPPORT_MIST_COOLANT values"
    and r: "r = output_coolant_update values gcode obj"
    and cm: "cm = (\<lambda>used. if OUTPUT_COMMENTS values
                         then [create_comment values (coolant_comment m used)] else [])"
  shows
    "(ENABLE_COOLANT values \<and> m \<noteq> coolant_mode values \<longrightarrow>
        (m = ''None'' \<longrightarrow>
           r = (values\<lparr>coolant_mode := ''None''\<rparr>, gcode @ cm ''None'' @ [''M9'']))
      \<and> (m = ''Flood'' \<and> fl \<or> m = ''Mist'' \<and> fl \<and> \<not> mi \<longrightarrow>
           r = (values\<lparr>coolant_mode := ''Flood''\<rparr>, gcode @ cm ''Flood'' @ [''M8'']))
      \<and> (m = ''Mist'' \<and> mi \<or> m = ''Flood'' \<and> \<not> fl \<and> mi \<longrightarrow>
           r = (values\<lparr>coolant_mode := ''Mist''\<rparr>, gcode @ cm ''Mist'' @ [''M7'']))
      \<and> (m \<noteq> ''None'' \<and> \<not> (m = ''Flood'' \<and> fl \<or> m = ''Mist'' \<and> fl \<and> \<not> mi)
           \<and> \<not> (m = ''Mist'' \<and> mi \<or> m = ''Flood'' \<and> \<not> fl \<and> mi) \<longrightarrow>
           r = (values, gcode)))
     \<and> (\<not> ENABLE_COOLANT values \<or> m = coolant_mode values \<longrightarrow> r = (values, gcode))"
  unfolding r cm m fl mi
  by (auto simp: output_coolant_update_def coolant_match_def Let_def)

theorem output_coolant_update_cases_witness:
  "output_coolant_update example_values [] flood_op
     = (example_values\<lparr>coolant_mode := ''Flood''\<rparr>, [''M8''])
   \<and> output_coolant_update example_values [] mist_op
     = (example_values\<lparr>coolant_mode := ''Flood''\<rparr>, [''M8''])
   \<and> output_coolant_update (example_values\<lparr>coolant_mode := ''Flood''\<rparr>) [''M8''] flood_op
     = (example_values\<lparr>coolant_mode := ''Flood''\<rparr>, [''M8''])"
  using
    output_coolant_update_cases [OF refl refl refl refl refl, of example_values flood_op "[]"]
    output_coolant_update_cases [OF refl refl refl refl refl, of example_values mist_op "[]"]
    output_coolant_update_cases [OF refl refl refl refl refl,
      of "example_values\<lparr>coolant_mode := ''Flood''\<rparr>" flood_op "[''M8'']"]
  by (simp add: example_values_def flood_op_def mist_op_def)

text \<open>
  C8: with \<open>ENABLE_COOLANT\<close> set and the requested mode different from the tracked one, the
  routine of \<open>heidenhain_post.py\<close> and the routine of \<open>refactored_heidenhain_post.py\<close> append
  the same lines to the same buffer: the same comment, when comments are on, and the
  same command or none.  This holds for every mode string and every pair of support flags.
\<close>

theorem coolant_update_agrees_with_refactored:
  assumes "ENABLE_COOLANT values" and "coolant_mode values \<noteq> CoolantMode obj"
  shows "snd (output_coolant_update values gcode obj) =
           refactored_output_coolant_update values gcode (CoolantMode obj)"
  using assms
  by (simp add: output_coolant_update_def refactored_output_coolant_update_def Let_def
        split: option.splits prod.splits)

theorem coolant_update_agrees_with_refactored_witness:
  "ENABLE_COOLANT example_values
   \<and> coolant_mode example_values \<noteq> CoolantMode mist_op
   \<and> snd (output_coolant_update example_values [] mist_op) = [''M8'']
   \<and> refactored_output_coolant_update example_values [] (CoolantMode mist_op) = [''M8'']"
  using coolant_update_agrees_with_refactored [of example_values mist_op "[]"]
  by (simp add: example_values_def mist_op_def refactored_output_coolant_update_def
        coolant_match_def)

subsection \<open>Linear moves\<close>

lemma bind_err_Inr [simp]: "bind_err (Inr a) f = f a"
  by (simp add: bind_err_def)

lemma bind_err_Inl [simp]: "bind_err (Inl e) f = Inl e"
  by (simp add: bind_err_def)

lemma getitem_Some: "d k = Some v \<Longrightarrow> getitem d k = Inr v"
  by (simp add: getitem_def)

lemma py_eq_refl: "py_eq v v"
  by (cases v) (simp_all add: py_eq_def)

lemma line_step_rapid:
  "line_step host values name p (line, cp0, cur) =
   line_step host values name p
     (line, (if name = ''G0'' then cp0(''F'' \<mapsto> Num (true_div (FMAX_SPEED values) 60)) else cp0),
      cur)"
proof -
  let ?upd = "\<lambda>c. if name = ''G0'' then c(''F'' \<mapsto> Num (true_div (FMAX_SPEED values) 60)) else c"
  have same: "line_step host values name p (line, c, cur) =
              line_step host values name p (line, c', cur)"
    if "?upd c = ?upd c'" for c c'
    unfolding line_step_def by (simp only: prod.case Let_def that)
  have "?upd cp0 = ?upd (?upd cp0)" by simp
  then show ?thesis by (rule same)
qed

lemma line_loop_rapid:
  "ps \<noteq> [] \<Longrightarrow>
   line_loop host values name ps (line, cp0, cur) =
   line_loop host values name ps
     (line, (if name = ''G0'' then cp0(''F'' \<mapsto> Num (true_div (FMAX_SPEED values) 60)) else cp0),
      cur)"
  by (cases ps) (simp_all add: line_step_rapid [of host "values" name _ line cp0 cur])

lemma line_tracked_unchanged:
  "\<not> (p \<in> set tracked_names \<and> changed cp cur p) \<Longrightarrow> line_tracked cp cur [p] = cur"
  by (auto simp: line_tracked_def fun_eq_iff)

lemma line_tracked_changed:
  "p \<in> set tracked_names \<Longrightarrow> changed cp cur p \<Longrightarrow> cp p = Some v \<Longrightarrow>
   line_tracked cp cur [p] = cur(p \<mapsto> v)"
  by (auto simp: line_tracked_def fun_eq_iff)

lemma line_step_word:
  assumes absm: "p \<in> set axis_names \<longrightarrow> MOTION_MODE values \<noteq> ''G91''"
    and rapid: "name = ''G0'' \<longrightarrow> cp ''F'' = Some (Num (true_div (FMAX_SPEED values) 60))"
    and dom: "p \<in> set tracked_names \<longrightarrow> p \<in> dom cur"
    and num: "numeric cp"
    and noM: "p = ''M'' \<longrightarrow> cp ''M'' = None"
  shows "line_step host values name p (line, cp, cur) =
           Inr (line @ line_word host values cp cur p, cp, line_tracked cp cur [p])"
proof -
  have cpfix: "(if name = ''G0'' then cp(''F'' \<mapsto> Num (true_div (FMAX_SPEED values) 60)) else cp)
                 = cp"
    using rapid by (auto simp: fun_upd_idem_iff)
  show ?thesis
  proof (cases "cp p")
    case None
    then have "\<not> (p \<in> set tracked_names \<and> changed cp cur p)" by (simp add: changed_def)
    then have "line_tracked cp cur [p] = cur" by (rule line_tracked_unchanged)
    with None show ?thesis
      by (simp add: line_step_def Let_def cpfix line_word_def)
  next
    case (Some v)
    consider (axis) "p \<in> set axis_names" | (R) "p = ''R''" | (F) "p = ''F''"
      | (other) "p \<notin> set tracked_names"
      by (auto simp: tracked_names_def)
    then show ?thesis
    proof cases
      case axis
      then have tr: "p \<in> set tracked_names" by (simp add: tracked_names_def)
      then obtain c where c: "cur p = Some c" using dom by auto
      obtain x where x: "v = Num x"
        using num Some axis by (cases v) (auto simp: numeric_def)
      have ch: "changed cp cur p = (\<not> py_eq v c)"
        using Some c by (simp add: changed_def)
      show ?thesis
      proof (cases "py_eq v c")
        case True
        then have "line_tracked cp cur [p] = cur"
          using ch by (intro line_tracked_unchanged) simp
        then show ?thesis using Some axis c True absm ch
          by (simp add: line_step_def Let_def cpfix line_word_def getitem_Some)
      next
        case False
        then have "line_tracked cp cur [p] = cur(p \<mapsto> v)"
          using ch tr Some by (intro line_tracked_changed) simp_all
        then show ?thesis using Some axis c False absm x ch
          by (simp add: line_step_def Let_def cpfix line_word_def getitem_Some to_number_def)
      qed
    next
      case R
      then have tr: "p \<in> set tracked_names" by (simp add: tracked_names_def)
      then obtain c where c: "cur p = Some c" using dom by auto
      have na: "p \<notin> set axis_names" using R by (simp add: axis_names_def)
      have ch: "changed cp cur p = (\<not> py_eq v c)"
        using Some c by (simp add: changed_def)
      show ?thesis
      proof (cases "py_eq v c")
        case True
        then have "line_tracked cp cur [p] = cur"
          using ch by (intro line_tracked_unchanged) simp
        then show ?thesis using Some R na c True ch
          by (simp add: line_step_def Let_def cpfix line_word_def getitem_Some)
      next
        case False
        then have "line_tracked cp cur [p] = cur(p \<mapsto> v)"
          using ch tr Some by (intro line_tracked_changed) simp_all
        then show ?thesis using Some R na c False ch
          by (simp add: line_step_def Let_def cpfix line_word_def getitem_Some)
      qed
    next
      case F
      then have tr: "p \<in> set tracked_names" by (simp add: tracked_names_def)
      then obtain c where c: "cur p = Some c" using dom by auto
      have na: "p \<notin> set axis_names" "p \<noteq> ''R''" using F by (simp_all add: axis_names_def)
      obtain x where x: "v = Num x"
        using num Some F by (cases v) (auto simp: numeric_def)
      have ch: "changed cp cur p = (\<not> py_eq v c)"
        using Some c by (simp add: changed_def)
      show ?thesis
      proof (cases "py_eq v c")
        case True
        then have "line_tracked cp cur [p] = cur"
          using ch by (intro line_tracked_unchanged) simp
        then show ?thesis using Some F na c True ch
          by (simp add: line_step_def Let_def cpfix line_word_def getitem_Some)
      next
        case False
        then have "line_tracked cp cur [p] = cur(p \<mapsto> v)"
          using ch tr Some by (intro line_tracked_changed) simp_all
        then show ?thesis using Some F na c False x ch
          by (simp add: line_step_def Let_def cpfix line_word_def getitem_Some to_number_def)
      qed
    next
      case other
      then have na: "p \<notin> set axis_names" "p \<noteq> ''R''" "p \<noteq> ''F''"
        by (auto simp: tracked_names_def)
      have "p \<noteq> ''M''" using noM Some by auto
      moreover have "line_tracked cp cur [p] = cur"
        using other by (intro line_tracked_unchanged) simp
      ultimately show ?thesis using Some other na
        by (simp add: line_step_def Let_def cpfix line_word_def axis_names_def)
    qed
  qed
qed

lemma line_tracked_dom:
  "set tracked_names \<subseteq> dom cur \<Longrightarrow> set tracked_names \<subseteq> dom (line_tracked cp cur ps)"
  by (auto simp: line_tracked_def changed_def split: option.splits)

lemma line_loop_words:
  assumes absm: "MOTION_MODE values \<noteq> ''G91''"
    and rapid: "name = ''G0'' \<longrightarrow> cp ''F'' = Some (Num (true_div (FMAX_SPEED values) 60))"
    and num: "numeric cp"
    and dist: "distinct ps"
    and tracked: "set tracked_names \<subseteq> dom cur"
    and noM: "''M'' \<in> set ps \<longrightarrow> cp ''M'' = None"
  shows "line_loop host values name ps (line, cp, cur) =
           Inr (line @ concat (map (line_word host values cp cur) ps), cp,
                line_tracked cp cur ps)"
  using dist tracked noM
proof (induction ps arbitrary: line cur)
  case Nil
  have "line_tracked cp cur [] = cur" by (simp add: line_tracked_def)
  then show ?case by simp
next
  case (Cons p ps)
  define cur' where "cur' = line_tracked cp cur [p]"
  have step: "line_step host values name p (line, cp, cur) =
                Inr (line @ line_word host values cp cur p, cp, cur')"
    unfolding cur'_def
    using _ rapid _ num
  proof (rule line_step_word)
    show "p \<in> set axis_names \<longrightarrow> MOTION_MODE values \<noteq> ''G91''" using absm by simp
    show "p \<in> set tracked_names \<longrightarrow> p \<in> dom cur" using Cons.prems(2) by auto
    show "p = ''M'' \<longrightarrow> cp ''M'' = None" using Cons.prems(3) by auto
  qed
  have other: "cur' q = cur q" if "q \<noteq> p" for q
    using that by (simp add: cur'_def line_tracked_def)
  have notin: "p \<notin> set ps" using Cons.prems(1) by simp
  have ch: "changed cp cur' q = changed cp cur q" if "q \<noteq> p" for q
    unfolding changed_def other [OF that] by (rule refl)
  have w: "map (line_word host values cp cur') ps = map (line_word host values cp cur) ps"
  proof (rule map_cong [OF refl])
    fix q assume "q \<in> set ps"
    then have "q \<noteq> p" using notin by auto
    then have eq: "changed cp cur' q = changed cp cur q" by (rule ch)
    show "line_word host values cp cur' q = line_word host values cp cur q"
      unfolding line_word_def eq by (rule refl)
  qed
  have m: "line_tracked cp cur' ps = line_tracked cp cur (p # ps)"
  proof (rule ext)
    fix q
    show "line_tracked cp cur' ps q = line_tracked cp cur (p # ps) q"
    proof (cases "q = p")
      case True
      then show ?thesis using notin by (simp add: line_tracked_def cur'_def)
    next
      case False
      then show ?thesis using ch [OF False] other [OF False] by (simp add: line_tracked_def)
    qed
  qed
  have d: "set tracked_names \<subseteq> dom cur'"
    unfolding cur'_def using Cons.prems(2) by (rule line_tracked_dom)
  have "line_loop host values name ps (line @ line_word host values cp cur p, cp, cur') =
          Inr ((line @ line_word host values cp cur p)
                 @ concat (map (line_word host values cp cur') ps), cp,
               line_tracked cp cur' ps)"
    using Cons.prems(1,3) d by (intro Cons.IH) auto
  then show ?case
    by (simp add: step w m)
qed

lemma line_params_rapid:
  "Name command = ''G0'' \<longrightarrow>
     line_params values command ''F'' = Some (Num (true_div (FMAX_SPEED values) 60))"
  by (simp add: line_params_def Let_def)

lemma line_params_numeric:
  "numeric (Parameters command) \<Longrightarrow> numeric (line_params values command)"
  by (auto simp: numeric_def line_params_def Let_def axis_names_def)

lemma line_params_M: "line_params values command ''M'' = Parameters command ''M''"
  by (simp add: line_params_def Let_def)

lemma line_loop_start:
  "PARAMETER_ORDER values \<noteq> [] \<Longrightarrow>
   line_loop host values (Name command) (PARAMETER_ORDER values)
     (line, (Parameters command)(''R'' \<mapsto> Str ''0''), cur) =
   line_loop host values (Name command) (PARAMETER_ORDER values)
     (line, line_params values command, cur)"
  using line_loop_rapid [of "PARAMETER_ORDER values" host "values" "Name command" line
      "(Parameters command)(''R'' \<mapsto> Str ''0'')" cur]
  by (simp add: line_params_def Let_def)

lemma line_word_nonempty:
  assumes "numeric cp"
  shows "line_word host values cp cur p \<noteq> [] \<longleftrightarrow>
           p \<in> set tracked_names \<and> changed cp cur p"
proof (cases "cp p")
  case None
  then show ?thesis by (simp add: line_word_def changed_def)
next
  case (Some v)
  show ?thesis
  proof (cases "p \<in> set (axis_names @ [''F''])")
    case True
    then obtain x where "v = Num x"
      using assms Some by (cases v) (auto simp: numeric_def)
    then show ?thesis using Some True
      by (auto simp: line_word_def tracked_names_def)
  next
    case False
    then show ?thesis using Some
      by (auto simp: line_word_def tracked_names_def)
  qed
qed

text \<open>
  What \<open>output_line\<close> returns in absolute mode, with \<open>cp\<close> the dictionary it leaves in the
  command: the line is \<open>L\<close> and the words of the parameters in order, appended when there
  is a word.
\<close>

lemma output_line_closed:
  assumes "MOTION_MODE values \<noteq> ''G91''"
    and "distinct (PARAMETER_ORDER values)" and "PARAMETER_ORDER values \<noteq> []"
    and "set tracked_names \<subseteq> dom cur"
    and "numeric (Parameters command)"
    and "''M'' \<in> set (PARAMETER_ORDER values) \<longrightarrow> Parameters command ''M'' = None"
    and "cp = line_params values command"
    and "ws = concat (map (line_word host values cp cur) (PARAMETER_ORDER values))"
  shows "output_line host values gcode command cur =
           Inr (if ws = [] then gcode else gcode @ [''L'' @ ws],
                command\<lparr>Parameters := cp\<rparr>,
                line_tracked cp cur (PARAMETER_ORDER values))"
proof -
  have num: "numeric cp"
    using assms(5,7) by (simp add: line_params_numeric)
  have loop: "line_loop host values (Name command) (PARAMETER_ORDER values)
                (''L'', (Parameters command)(''R'' \<mapsto> Str ''0''), cur) =
              Inr (''L'' @ ws, cp, line_tracked cp cur (PARAMETER_ORDER values))"
    unfolding line_loop_start [OF assms(3)] assms(8)
    unfolding assms(7)
    using assms(1) line_params_rapid num [unfolded assms(7)] assms(2,4)
  proof (rule line_loop_words)
    show "''M'' \<in> set (PARAMETER_ORDER values) \<longrightarrow> line_params values command ''M'' = None"
      using assms(6) by (simp add: line_params_M)
  qed
  show ?thesis
    by (simp add: output_line_def loop)
qed

text \<open>
  C1, as the code has it.  In absolute mode \<open>output_line\<close> prints, in the order of
  \<open>PARAMETER_ORDER\<close>, one word for each tracked parameter (axes, \<open>R\<close>, \<open>F\<close>) whose value in
  the command's dictionary \<open>!=\<close> the tracked value, and no word otherwise; the tracked value
  of each printed parameter becomes the dictionary's, the others stay; and the line is
  appended only when it has a word.  The dictionary is the one \<open>output_line\<close> leaves in the
  command: every entry but \<open>"R"\<close> and the \<open>"F"\<close> of a command named \<open>G0\<close> is the command's
  own, \<open>"R"\<close> is \<open>"0"\<close>, and the \<open>"F"\<close> of a command named \<open>G0\<close> is the rapid feed
  \<open>FMAX_SPEED / 60\<close>, whatever feed the command came with.
\<close>

theorem output_line_prints_changes_only:
  assumes "MOTION_MODE values \<noteq> ''G91''"
    and "distinct (PARAMETER_ORDER values)" and "PARAMETER_ORDER values \<noteq> []"
    and "set tracked_names \<subseteq> dom cur"
    and "numeric (Parameters command)"
    and "''M'' \<in> set (PARAMETER_ORDER values) \<longrightarrow> Parameters command ''M'' = None"
    and "cp = line_params values command"
    and "ws = concat (map (line_word host values cp cur) (PARAMETER_ORDER values))"
  shows "output_line host values gcode command cur =
           Inr (if ws = [] then gcode else gcode @ [''L'' @ ws],
                command\<lparr>Parameters := cp\<rparr>,
                line_tracked cp cur (PARAMETER_ORDER values))
         \<and> (\<forall>p. line_word host values cp cur p \<noteq> [] \<longleftrightarrow>
                p \<in> set tracked_names
                \<and> (\<exists>v c. cp p = Some v \<and> cur p = Some c \<and> \<not> py_eq v c))
         \<and> (\<forall>p. line_tracked cp cur (PARAMETER_ORDER values) p =
                (if p \<in> set (PARAMETER_ORDER values) \<and> line_word host values cp cur p \<noteq> []
                 then cp p else cur p))
         \<and> (\<forall>p. p \<noteq> ''R'' \<and> (p = ''F'' \<longrightarrow> Name command \<noteq> ''G0'') \<longrightarrow>
                cp p = Parameters command p)
         \<and> cp ''R'' = Some (Str ''0'')
         \<and> (Name command = ''G0'' \<longrightarrow>
              cp ''F'' = Some (Num (true_div (FMAX_SPEED values) 60)))"
proof -
  have num: "numeric cp"
    using assms(5,7) by (simp add: line_params_numeric)
  have a: "output_line host values gcode command cur =
           Inr (if ws = [] then gcode else gcode @ [''L'' @ ws],
                command\<lparr>Parameters := cp\<rparr>,
                line_tracked cp cur (PARAMETER_ORDER values))"
    using assms by (rule output_line_closed)
  have ch: "changed cp cur p \<longleftrightarrow> (\<exists>v c. cp p = Some v \<and> cur p = Some c \<and> \<not> py_eq v c)"
    for p
    by (auto simp: changed_def split: option.splits)
  have b: "line_word host values cp cur p \<noteq> [] \<longleftrightarrow>
             p \<in> set tracked_names
             \<and> (\<exists>v c. cp p = Some v \<and> cur p = Some c \<and> \<not> py_eq v c)" for p
    using line_word_nonempty [OF num, of host "values" cur p] ch [of p] by simp
  have c: "line_tracked cp cur (PARAMETER_ORDER values) p =
             (if p \<in> set (PARAMETER_ORDER values) \<and> line_word host values cp cur p \<noteq> []
              then cp p else cur p)" for p
    using line_word_nonempty [OF num, of host "values" cur p]
    by (simp add: line_tracked_def)
  have d: "p \<noteq> ''R'' \<and> (p = ''F'' \<longrightarrow> Name command \<noteq> ''G0'') \<longrightarrow> cp p = Parameters command p"
    for p
    by (auto simp: assms(7) line_params_def Let_def)
  have e: "cp ''R'' = Some (Str ''0'')"
    by (simp add: assms(7) line_params_def Let_def)
  have f: "Name command = ''G0'' \<longrightarrow>
             cp ''F'' = Some (Num (true_div (FMAX_SPEED values) 60))"
    unfolding assms(7) by (rule line_params_rapid)
  show ?thesis
    using a b c d e f by blast
qed

lemma rapid_feed_8000: "true_div 8000 60 = Fin (4691249611844267 / 35184372088832)"
  by (simp add: float_eval)

lemmas example_eval =
  example_values_def example_host_def move_cmd_def moved_parameters_def m_cmd_def
  rapid_cmd_def rapid_tracked_def initial_parameters_def axis_names_def tracked_names_def
  rapid_feed_8000

lemmas line_eval =
  line_word_def line_params_def line_tracked_def changed_def py_str_def

theorem output_line_prints_changes_only_witness:
  "map_sum id fst (output_line example_host example_values [] move_cmd initial_parameters)
     = Inr [''L X+10 Y+12,5 R0 F150'']
   \<and> map_sum id (\<lambda>(g, c, cur). map cur [''X'', ''Y'', ''Z'', ''R'', ''F''])
       (output_line example_host example_values [] move_cmd initial_parameters)
     = Inr [Some (Num (Fin 10)), Some (Num (Fin (25 / 2))), Some (Num (Fin 123456789)),
            Some (Str ''0''), Some (Num (Fin (5 / 2)))]
   \<and> map_sum id fst
       (output_line example_host example_values [''L X+10 Y+12,5 R0 F150''] move_cmd
          moved_parameters)
     = Inr [''L X+10 Y+12,5 R0 F150'']"
proof -
  have h1: "MOTION_MODE example_values \<noteq> ''G91''"
    and h2: "distinct (PARAMETER_ORDER example_values)"
    and h3: "PARAMETER_ORDER example_values \<noteq> []"
    by (simp_all add: example_values_def)
  have h4: "set tracked_names \<subseteq> dom initial_parameters"
    and h4': "set tracked_names \<subseteq> dom moved_parameters"
    by (simp_all add: example_eval)
  have h5: "numeric (Parameters move_cmd)"
    by (simp add: numeric_def example_eval)
  have h6: "''M'' \<in> set (PARAMETER_ORDER example_values) \<longrightarrow> Parameters move_cmd ''M'' = None"
    by (simp add: example_eval)
  note t1 = output_line_prints_changes_only
    [OF h1 h2 h3 h4 h5 h6 refl refl, of example_host "[]", THEN conjunct1]
  note t2 = output_line_prints_changes_only
    [OF h1 h2 h3 h4' h5 h6 refl refl, of example_host "[''L X+10 Y+12,5 R0 F150'']",
      THEN conjunct1]
  show ?thesis
    unfolding t1 t2
    by (simp add: line_eval format_eval float_eval example_eval)
qed

text \<open>
  C1 as stated fails for a rapid move.  The command \<open>G0\<close> carries the position \<open>X1\<close> and the
  feed 50, both tracked already, and \<open>"R"\<close> is tracked as \<open>"0"\<close>: no value of the command
  differs from the tracked one.  Yet \<open>output_line\<close> appends the line \<open>L F MAX\<close>, and the
  tracked feed becomes the rapid feed, which is not the command's.
\<close>

theorem output_line_rapid_feed_counterexample:
  "Name rapid_cmd = ''G0''
   \<and> MOTION_MODE example_values = ''G90''
   \<and> dom (Parameters rapid_cmd) = {''X'', ''F''}
   \<and> Parameters rapid_cmd ''X'' = rapid_tracked ''X''
   \<and> Parameters rapid_cmd ''F'' = rapid_tracked ''F''
   \<and> rapid_tracked ''R'' = Some (Str ''0'')
   \<and> map_sum id fst (output_line example_host example_values [] rapid_cmd rapid_tracked)
       = Inr [''L F MAX'']
   \<and> map_sum id (\<lambda>(g, c, cur). cur ''F'')
       (output_line example_host example_values [] rapid_cmd rapid_tracked)
       = Inr (Some (Num (Fin (4691249611844267 / 35184372088832))))"
proof -
  have h1: "MOTION_MODE example_values \<noteq> ''G91''"
    and h2: "distinct (PARAMETER_ORDER example_values)"
    and h3: "PARAMETER_ORDER example_values \<noteq> []"
    by (simp_all add: example_values_def)
  have h4: "set tracked_names \<subseteq> dom rapid_tracked"
    by (simp add: example_eval)
  have h5: "numeric (Parameters rapid_cmd)"
    by (simp add: numeric_def example_eval)
  have h6: "''M'' \<in> set (PARAMETER_ORDER example_values) \<longrightarrow> Parameters rapid_cmd ''M'' = None"
    by (simp add: example_eval)
  note t = output_line_closed [OF h1 h2 h3 h4 h5 h6 refl refl, of example_host "[]"]
  have d: "dom (Parameters rapid_cmd) = {''X'', ''F''}"
    by (auto simp: rapid_cmd_def split: if_splits)
  show ?thesis
    unfolding t d
    by (simp add: line_eval format_eval float_eval example_eval)
qed

subsection \<open>The \<open>"M"\<close> branch of a linear move\<close>

lemma line_step_M:
  assumes "name = ''G0'' \<longrightarrow> cp ''F'' = Some (Num (true_div (FMAX_SPEED values) 60))"
    and "cp ''M'' = Some v"
  shows "line_step host values name ''M'' (line, cp, cur) = Inl NameError"
proof -
  have cpfix: "(if name = ''G0'' then cp(''F'' \<mapsto> Num (true_div (FMAX_SPEED values) 60)) else cp) = cp"
    using assms(1) by (auto simp: fun_upd_idem_iff)
  show ?thesis
    using assms(2) by (simp add: line_step_def Let_def cpfix axis_names_def)
qed

lemma line_step_ok:
  assumes rapid: "name = ''G0'' \<longrightarrow> cp ''F'' = Some (Num (true_div (FMAX_SPEED values) 60))"
    and tracked: "set tracked_names \<subseteq> dom cur"
    and num: "numeric cp"
    and noM: "p = ''M'' \<longrightarrow> cp ''M'' = None"
  shows "\<exists>line' cur'. line_step host values name p (line, cp, cur) = Inr (line', cp, cur')
           \<and> set tracked_names \<subseteq> dom cur'"
proof (cases "MOTION_MODE values = ''G91'' \<and> p \<in> set axis_names")
  case True
  have cpfix: "(if name = ''G0'' then cp(''F'' \<mapsto> Num (true_div (FMAX_SPEED values) 60)) else cp) = cp"
    using rapid by (auto simp: fun_upd_idem_iff)
  show ?thesis
  proof (cases "cp p")
    case None
    then have "line_step host values name p (line, cp, cur) = Inr (line, cp, cur)"
      by (simp add: line_step_def Let_def cpfix)
    then show ?thesis using tracked by blast
  next
    case (Some v)
    then have "line_step host values name p (line, cp, cur) =
                 Inr (line, cp, cur(p \<mapsto> Num (Fin 0)))"
      using True by (simp add: line_step_def Let_def cpfix)
    moreover have "set tracked_names \<subseteq> dom (cur(p \<mapsto> Num (Fin 0)))"
      using tracked by auto
    ultimately show ?thesis by blast
  qed
next
  case False
  have "line_step host values name p (line, cp, cur) =
          Inr (line @ line_word host values cp cur p, cp, line_tracked cp cur [p])"
    using False rapid tracked num noM by (intro line_step_word) auto
  moreover have "set tracked_names \<subseteq> dom (line_tracked cp cur [p])"
    using tracked by (rule line_tracked_dom)
  ultimately show ?thesis by blast
qed

lemma line_loop_ok:
  assumes rapid: "name = ''G0'' \<longrightarrow> cp ''F'' = Some (Num (true_div (FMAX_SPEED values) 60))"
    and num: "numeric cp"
    and tracked: "set tracked_names \<subseteq> dom cur"
    and noM: "''M'' \<in> set ps \<longrightarrow> cp ''M'' = None"
  shows "\<exists>r. line_loop host values name ps (line, cp, cur) = Inr r"
  using tracked noM
proof (induction ps arbitrary: line cur)
  case Nil
  then show ?case by simp
next
  case (Cons p ps)
  have "p = ''M'' \<longrightarrow> cp ''M'' = None" using Cons.prems(2) by auto
  with rapid Cons.prems(1) num obtain line' cur'
    where step: "line_step host values name p (line, cp, cur) = Inr (line', cp, cur')"
      and d: "set tracked_names \<subseteq> dom cur'"
    using line_step_ok [of name cp "values" cur p host line] by blast
  have "\<exists>r. line_loop host values name ps (line', cp, cur') = Inr r"
    using d Cons.prems(2) by (intro Cons.IH) auto
  then show ?case by (simp add: step)
qed

lemma line_loop_M:
  assumes rapid: "name = ''G0'' \<longrightarrow> cp ''F'' = Some (Num (true_div (FMAX_SPEED values) 60))"
    and num: "numeric cp"
    and tracked: "set tracked_names \<subseteq> dom cur"
    and M: "''M'' \<in> set ps" "cp ''M'' = Some v"
  shows "line_loop host values name ps (line, cp, cur) = Inl NameError"
  using tracked M(1)
proof (induction ps arbitrary: line cur)
  case Nil
  then show ?case by simp
next
  case (Cons p ps)
  show ?case
  proof (cases "p = ''M''")
    case True
    then show ?thesis using line_step_M [OF rapid M(2)] by simp
  next
    case False
    then have "p = ''M'' \<longrightarrow> cp ''M'' = None" by simp
    with rapid Cons.prems(1) num obtain line' cur'
      where step: "line_step host values name p (line, cp, cur) = Inr (line', cp, cur')"
        and d: "set tracked_names \<subseteq> dom cur'"
      using line_step_ok [of name cp "values" cur p host line] by blast
    have "line_loop host values name ps (line', cp, cur') = Inl NameError"
      using d Cons.prems(2) False by (intro Cons.IH) auto
    then show ?thesis by (simp add: step)
  qed
qed

text \<open>
  C10: with \<open>"M"\<close> in \<open>PARAMETER_ORDER\<close>, tracked values for every tracked parameter and
  numbers for the axes and the feed, \<open>output_line\<close> returns exactly when the command's
  dictionary has no key \<open>"M"\<close>; when it has one, the \<open>"M"\<close> branch reads the unassigned
  \<open>point_line\<close> and the call raises NameError, in either motion mode.
\<close>

theorem output_line_raises_on_M:
  assumes "''M'' \<in> set (PARAMETER_ORDER values)"
    and "set tracked_names \<subseteq> dom cur"
    and "numeric (Parameters command)"
  shows "(''M'' \<in> dom (Parameters command) \<longrightarrow>
            output_line host values gcode command cur = Inl NameError)
         \<and> (''M'' \<notin> dom (Parameters command) \<longrightarrow>
            (\<exists>r. output_line host values gcode command cur = Inr r))"
proof -
  have ne: "PARAMETER_ORDER values \<noteq> []" using assms(1) by auto
  note start = line_loop_start [OF ne]
  have num: "numeric (line_params values command)"
    using assms(3) by (rule line_params_numeric)
  have a: "output_line host values gcode command cur = Inl NameError"
    if "''M'' \<in> dom (Parameters command)"
  proof -
    from that obtain v where "line_params values command ''M'' = Some v"
      by (auto simp: line_params_M)
    then have "line_loop host values (Name command) (PARAMETER_ORDER values)
                 (''L'', line_params values command, cur) = Inl NameError"
      using line_params_rapid num assms(2,1) by (intro line_loop_M) auto
    then show ?thesis by (simp add: output_line_def start)
  qed
  have b: "\<exists>r. output_line host values gcode command cur = Inr r"
    if "''M'' \<notin> dom (Parameters command)"
  proof -
    from that have "line_params values command ''M'' = None"
      by (auto simp: line_params_M)
    then obtain r where "line_loop host values (Name command) (PARAMETER_ORDER values)
                 (''L'', line_params values command, cur) = Inr r"
      using line_loop_ok [OF line_params_rapid num assms(2)] by blast
    then show ?thesis by (cases r) (simp add: output_line_def start)
  qed
  show ?thesis using a b by blast
qed

theorem output_line_raises_on_M_witness:
  "''M'' \<in> dom (Parameters m_cmd)
   \<and> output_line example_host example_values [] m_cmd initial_parameters = Inl NameError
   \<and> ''M'' \<notin> dom (Parameters move_cmd)
   \<and> (\<exists>r. output_line example_host example_values [] move_cmd initial_parameters = Inr r)"
proof -
  have h1: "''M'' \<in> set (PARAMETER_ORDER example_values)"
    by (simp add: example_values_def)
  have h2: "set tracked_names \<subseteq> dom initial_parameters"
    by (simp add: example_eval)
  have h3: "numeric (Parameters m_cmd)" "numeric (Parameters move_cmd)"
    by (simp_all add: numeric_def example_eval)
  have m: "''M'' \<in> dom (Parameters m_cmd)" "''M'' \<notin> dom (Parameters move_cmd)"
    by (simp_all add: example_eval)
  show ?thesis
    using m output_line_raises_on_M [OF h1 h2 h3(1), of example_host "[]"]
      output_line_raises_on_M [OF h1 h2 h3(2), of example_host "[]"]
    by blast
qed

subsection \<open>Tool changes\<close>

lemma format_for_spindle_state:
  "format_for_spindle (v\<lparr>spindle_dir := d\<rparr>) x = format_for_spindle v x"
  "format_for_spindle (v\<lparr>spindle_state := t\<rparr>) x = format_for_spindle v x"
  by (simp_all add: format_for_spindle_def format_parameter_def)

text \<open>
  C5: a command whose normalised name is \<open>M6\<close> is handed to no move routine, and
  \<open>parse_a_path\<close> calls \<open>output_tool_change\<close> with the object of the path as the tool
  controller.  With \<open>OUTPUT_TOOL_CHANGE\<close> set, \<open>output_tool_change\<close> appends, in this order:
  \<open>M5\<close> when \<open>STOP_SPINDLE_FOR_TOOL_CHANGE\<close> is set and the tracked spindle state is not
  \<open>"None"\<close> (the state is then \<open>"None"\<close>), the line \<open>TOOL CALL n Z Ss\<close> with the tool number and
  the formatted spindle speed, \<open>M6\<close>, then \<open>M3\<close> for the direction \<open>"Forward"\<close> or \<open>M4\<close> for
  \<open>"Reverse"\<close>, and the lines of \<open>TOOL_CHANGE\<close>; the tracked direction becomes the tool
  controller's.  With \<open>OUTPUT_COMMENTS\<close> set these lines stand between the comments
  \<open>Begin toolchange\<close> and \<open>End toolchange\<close>.
\<close>

theorem output_tool_change_order:
  assumes "OUTPUT_TOOL_CHANGE values"
  shows "output_tool_change values gcode tc =
           (values\<lparr>spindle_state :=
                     (if STOP_SPINDLE_FOR_TOOL_CHANGE values \<and> spindle_state values \<noteq> ''None''
                      then ''None'' else spindle_state values),
                   spindle_dir := SpindleDir tc\<rparr>,
            gcode
            @ (if OUTPUT_COMMENTS values then [create_comment values ''Begin toolchange'']
               else [])
            @ (if STOP_SPINDLE_FOR_TOOL_CHANGE values \<and> spindle_state values \<noteq> ''None''
               then [''M5''] else [])
            @ [''TOOL CALL '' @ str_int (ToolNumber tc) @ '' Z S''
                 @ format_for_spindle values (SpindleSpeed tc)]
            @ [''M6'']
            @ (if SpindleDir tc = ''Forward'' then [''M3'']
               else if SpindleDir tc = ''Reverse'' then [''M4''] else [])
            @ splitlines (TOOL_CHANGE values)
            @ (if OUTPUT_COMMENTS values then [create_comment values ''End toolchange'']
               else []))
         \<and> (normalize_name (Name command) = ''M6'' \<longrightarrow>
              parse_command host tc command (values, gcode, cur) =
                Inr (fst (output_tool_change values gcode tc),
                     snd (output_tool_change values gcode tc), cur))"
proof -
  have a: "output_tool_change values gcode tc =
           (values\<lparr>spindle_state :=
                     (if STOP_SPINDLE_FOR_TOOL_CHANGE values \<and> spindle_state values \<noteq> ''None''
                      then ''None'' else spindle_state values),
                   spindle_dir := SpindleDir tc\<rparr>,
            gcode
            @ (if OUTPUT_COMMENTS values then [create_comment values ''Begin toolchange'']
               else [])
            @ (if STOP_SPINDLE_FOR_TOOL_CHANGE values \<and> spindle_state values \<noteq> ''None''
               then [''M5''] else [])
            @ [''TOOL CALL '' @ str_int (ToolNumber tc) @ '' Z S''
                 @ format_for_spindle values (SpindleSpeed tc)]
            @ [''M6'']
            @ (if SpindleDir tc = ''Forward'' then [''M3'']
               else if SpindleDir tc = ''Reverse'' then [''M4''] else [])
            @ splitlines (TOOL_CHANGE values)
            @ (if OUTPUT_COMMENTS values then [create_comment values ''End toolchange'']
               else []))"
    using assms
    by (simp add: output_tool_change_def Let_def create_comment_def format_for_spindle_state)
  have b: "parse_command host tc command (values, gcode, cur) =
             Inr (fst (output_tool_change values gcode tc),
                  snd (output_tool_change values gcode tc), cur)"
    if "normalize_name (Name command) = ''M6''"
    using that by (simp add: parse_command_def Let_def split: prod.splits)
  show ?thesis using a b by blast
qed

theorem output_tool_change_order_witness:
  "output_tool_change (example_values\<lparr>spindle_state := ''Forward''\<rparr>) [] tool_controller =
     (example_values\<lparr>spindle_state := ''None'', spindle_dir := ''Forward''\<rparr>,
      [''M5'', ''TOOL CALL 1 Z S4000'', ''M6'', ''M3''])
   \<and> parse_command example_host tool_controller tool_change_cmd
       (example_values\<lparr>spindle_state := ''Forward''\<rparr>, [], initial_parameters) =
     Inr (example_values\<lparr>spindle_state := ''None'', spindle_dir := ''Forward''\<rparr>,
          [''M5'', ''TOOL CALL 1 Z S4000'', ''M6'', ''M3''], initial_parameters)"
proof -
  have h: "OUTPUT_TOOL_CHANGE (example_values\<lparr>spindle_state := ''Forward''\<rparr>)"
    by (simp add: example_values_def)
  have n: "normalize_name (Name tool_change_cmd) = ''M6''"
    by (simp add: normalize_name_def tool_change_cmd_def)
  have v: "STOP_SPINDLE_FOR_TOOL_CHANGE (example_values\<lparr>spindle_state := ''Forward''\<rparr>)"
    "\<not> OUTPUT_COMMENTS (example_values\<lparr>spindle_state := ''Forward''\<rparr>)"
    "TOOL_CHANGE (example_values\<lparr>spindle_state := ''Forward''\<rparr>) = []"
    "format_for_spindle (example_values\<lparr>spindle_state := ''Forward''\<rparr>) (Fin 4000) = ''4000''"
    by (simp_all add: example_values_def format_eval float_eval)
  have t: "ToolNumber tool_controller = 1" "SpindleDir tool_controller = ''Forward''"
    "SpindleSpeed tool_controller = Fin 4000"
    by (simp_all add: tool_controller_def)
  note c = output_tool_change_order
    [OF h, where gcode = "[]" and tc = tool_controller and command = tool_change_cmd
       and host = example_host and cur = initial_parameters]
  show ?thesis
    using c n by (simp add: v t str_int_def nat_digits_1 splitlines_def)
qed

end
